theory Spec2Isabelle
  imports Main "HOL-Library.Word" "HOL-Library.Signed_Division" "HOL-Library.Monad_Syntax"
begin

unbundle bit_operations_syntax

section \<open>Data model of SoftVideoEncoderOMXComponent\<close>

text \<open>
  Machine integers: \<open>OMX_U32\<close>, \<open>uint32_t\<close>, \<open>OMX_S32\<close> and \<open>int32_t\<close> are 32-bit
  words (\<open>unat\<close> reads an unsigned one, \<open>sint\<close> a signed one); \<open>size_t\<close> is a 64-bit
  word (LP64); a byte is an 8-bit word. Multiplication and addition wrap around.
\<close>

type_synonym u8 = "8 word"
type_synonym u16 = "16 word"
type_synonym u32 = "32 word"
type_synonym s32 = "32 word"
type_synonym size_t = "64 word"

text \<open>Signed 32-bit division as C++ defines it: the quotient is truncated towards zero.\<close>

definition s32_div :: "s32 \<Rightarrow> s32 \<Rightarrow> s32" where
  "s32_div a b = word_of_int (sint a sdiv sint b)"

datatype OMX_ERRORTYPE =
    OMX_ErrorNone
  | OMX_ErrorUndefined
  | OMX_ErrorBadParameter
  | OMX_ErrorUnsupportedSetting
  | OMX_ErrorBadPortIndex
  | OMX_ErrorNotImplemented
  | OMX_ErrorNoMore
  | OMX_ErrorUnsupportedIndex

text \<open>
  The colour formats and coding types the component compares against are named; every
  other enumerator of the OpenMAX headers is \<open>OMX_COLOR_FormatOther\<close> / \<open>OMX_VIDEO_Coding\<close>
  with its number.
\<close>

datatype OMX_COLOR_FORMATTYPE =
    OMX_COLOR_FormatUnused
  | OMX_COLOR_FormatYUV420Planar
  | OMX_COLOR_FormatYUV420SemiPlanar
  | OMX_COLOR_FormatAndroidOpaque
  | OMX_COLOR_FormatOther nat

datatype OMX_VIDEO_CODINGTYPE =
    OMX_VIDEO_CodingUnused
  | OMX_VIDEO_Coding nat

text \<open>\<open>OMX_BOOL\<close> is an enum: besides the two truth values it can hold any other bit pattern.\<close>

datatype OMX_BOOL = OMX_FALSE | OMX_TRUE | OMX_BOOL_MAX

text \<open>A C++ condition on an \<open>OMX_BOOL\<close> is true for every value but \<open>OMX_FALSE\<close> (zero).\<close>

fun truthy :: "OMX_BOOL \<Rightarrow> bool" where
  "truthy OMX_FALSE = False"
| "truthy OMX_TRUE = True"
| "truthy OMX_BOOL_MAX = True"

datatype OMX_DIRTYPE = OMX_DirInput | OMX_DirOutput

definition kInputPortIndex :: u32 where
  "kInputPortIndex = 0"

definition kOutputPortIndex :: u32 where
  "kOutputPortIndex = 1"

definition kInputBufferAlignment :: u32 where
  "kInputBufferAlignment = 1"

definition kOutputBufferAlignment :: u32 where
  "kOutputBufferAlignment = 2"

text \<open>\<open>OMX_VIDEO_PORTDEFINITIONTYPE\<close>, the \<open>format.video\<close> member of a port definition.\<close>

record OMX_VIDEO_PORTDEFINITIONTYPE =
  cMIMEType :: string
  nFrameWidth :: u32
  nFrameHeight :: u32
  nStride :: s32
  nSliceHeight :: u32
  nBitrate :: u32
  xFramerate :: u32
  bFlagErrorConcealment :: OMX_BOOL
  eCompressionFormat :: OMX_VIDEO_CODINGTYPE
  eColorFormat :: OMX_COLOR_FORMATTYPE

text \<open>
  \<open>OMX_PARAM_PORTDEFINITIONTYPE\<close>. The field \<open>validOMXParam\<close> stands for the size and
  version header of the structure: it is what \<open>isValidOMXParam\<close> (declared in
  SimpleSoftOMXComponent.h, outside this source file) answers for it.
\<close>

record OMX_PARAM_PORTDEFINITIONTYPE =
  validOMXParam :: bool
  nPortIndex :: u32
  eDir :: OMX_DIRTYPE
  nBufferCountActual :: u32
  nBufferCountMin :: u32
  nBufferSize :: u32
  bEnabled :: OMX_BOOL
  bPopulated :: OMX_BOOL
  bBuffersContiguous :: OMX_BOOL
  nBufferAlignment :: u32
  video :: OMX_VIDEO_PORTDEFINITIONTYPE

record OMX_VIDEO_PARAM_PORTFORMATTYPE =
  fmt_validOMXParam :: bool
  fmt_nPortIndex :: u32
  fmt_nIndex :: u32
  fmt_eCompressionFormat :: OMX_VIDEO_CODINGTYPE
  fmt_eColorFormat :: OMX_COLOR_FORMATTYPE
  fmt_xFramerate :: u32

record StoreMetaDataInBuffersParams =
  smd_validOMXParam :: bool
  smd_nPortIndex :: u32
  bStoreMetaData :: OMX_BOOL

record OMX_PARAM_COMPONENTROLETYPE =
  role_validOMXParam :: bool
  cRole :: string

record OMX_VIDEO_PARAM_PROFILELEVELTYPE =
  pl_validOMXParam :: bool
  pl_nPortIndex :: u32
  eProfile :: u32
  eLevel :: u32
  nProfileIndex :: u32

record CodecProfileLevel =
  mProfile :: u32
  mLevel :: u32

text \<open>
  The sizes of the two metadata structures of HardwareAPI.h depend on the target ABI;
  they are parameters of the model.
\<close>

record metadata_sizes =
  sizeof_VideoNativeMetadata :: size_t
  sizeof_VideoGrallocMetadata :: size_t

text \<open>
  The members of the component. \<open>inDef\<close> and \<open>outDef\<close> are the port definitions
  \<open>editPortInfo(kInputPortIndex)->mDef\<close> and \<open>editPortInfo(kOutputPortIndex)->mDef\<close>.
  \<open>mShmData\<close> is \<open>None\<close> for the null pointer and otherwise holds the element count
  \<open>mWidth * mHeight * 4\<close> the array was allocated with. \<open>mEglDisplay\<close> is true when the
  display is not \<open>EGL_NO_DISPLAY\<close>.
\<close>

record component =
  mInputDataIsMeta :: bool
  mWidth :: s32
  mHeight :: s32
  mBitrate :: u32
  mFramerate :: u32
  mColorFormat :: OMX_COLOR_FORMATTYPE
  mMinOutputBufferSize :: u32
  mMinCompressionRatio :: u32
  mComponentRole :: string
  mCodingType :: OMX_VIDEO_CODINGTYPE
  mProfileLevels :: "CodecProfileLevel list"
  mIsPowervr :: bool
  mEglDisplay :: bool
  mShmData :: "s32 option"
  inDef :: OMX_PARAM_PORTDEFINITIONTYPE
  outDef :: OMX_PARAM_PORTDEFINITIONTYPE

section \<open>Port negotiation\<close>

text \<open>
  \<open>updatePortParams\<close>. The raw buffer size is computed in \<open>uint32_t\<close>:
  \<open>nStride * nSliceHeight * 3 / 2\<close> wraps modulo \<open>2^32\<close> before the unsigned division.
  The division by \<open>mMinCompressionRatio\<close> is undefined for a zero ratio: the model
  returns \<open>None\<close> there (the call does not return).
\<close>

definition rawBufferSize :: "OMX_PARAM_PORTDEFINITIONTYPE \<Rightarrow> u32" where
  "rawBufferSize d = (nStride (video d) * nSliceHeight (video d) * 3) div 2"

definition metadataSize :: "metadata_sizes \<Rightarrow> size_t" where
  "metadataSize sz = max (sizeof_VideoNativeMetadata sz) (sizeof_VideoGrallocMetadata sz)"

definition updateInDef :: "metadata_sizes \<Rightarrow> component \<Rightarrow> OMX_PARAM_PORTDEFINITIONTYPE" where
  "updateInDef sz s =
     (let d0 = inDef s;
          v1 = (video d0)\<lparr>nFrameWidth := mWidth s, nFrameHeight := mHeight s\<rparr>;
          v2 = v1\<lparr>nStride := nFrameWidth v1\<rparr>;
          v3 = v2\<lparr>nSliceHeight := nFrameHeight v2\<rparr>;
          v4 = v3\<lparr>xFramerate := mFramerate s, eColorFormat := mColorFormat s\<rparr>;
          d1 = d0\<lparr>video := v4\<rparr>
      in if eColorFormat (video d1) = OMX_COLOR_FormatAndroidOpaque
         then d1\<lparr>nBufferSize := ucast (metadataSize sz)\<rparr>
         else d1\<lparr>nBufferSize := rawBufferSize d1\<rparr>)"

definition updatePortParams :: "metadata_sizes \<Rightarrow> component \<Rightarrow> component option" where
  "updatePortParams sz s =
     (let inD = updateInDef sz s;
          raw = rawBufferSize inD;
          o0 = outDef s;
          o1 = o0\<lparr>video := (video o0)\<lparr>nFrameWidth := mWidth s, nFrameHeight := mHeight s,
                                         nBitrate := mBitrate s\<rparr>\<rparr>
      in if mMinCompressionRatio s = 0 then None
         else Some (s\<lparr>inDef := inD,
                      outDef := o1\<lparr>nBufferSize :=
                                     max (mMinOutputBufferSize s)
                                         (raw div mMinCompressionRatio s)\<rparr>\<rparr>))"

text \<open>
  \<open>internalSetPortParams\<close>. On the input port the geometry, the scratch buffer and the
  frame rate are stored before the formats are checked.
\<close>

definition internalSetPortParams ::
  "metadata_sizes \<Rightarrow> component \<Rightarrow> OMX_PARAM_PORTDEFINITIONTYPE \<Rightarrow>
   (OMX_ERRORTYPE \<times> component) option" where
  "internalSetPortParams sz s port =
     (if \<not> validOMXParam port then Some (OMX_ErrorBadParameter, s)
      else if nPortIndex port = kInputPortIndex then
        (let s1 = s\<lparr>mWidth := nFrameWidth (video port), mHeight := nFrameHeight (video port)\<rparr>;
             s2 = (if mIsPowervr s1 \<and> mShmData s1 = None
                   then s1\<lparr>mShmData := Some (mWidth s1 * mHeight s1 * 4)\<rparr> else s1);
             s3 = s2\<lparr>mFramerate := xFramerate (video port)\<rparr>
         in if eCompressionFormat (video port) \<noteq> OMX_VIDEO_CodingUnused
               \<or> (eColorFormat (video port) \<noteq> OMX_COLOR_FormatYUV420Planar
                  \<and> eColorFormat (video port) \<noteq> OMX_COLOR_FormatYUV420SemiPlanar
                  \<and> eColorFormat (video port) \<noteq> OMX_COLOR_FormatAndroidOpaque)
            then Some (OMX_ErrorUnsupportedSetting, s3)
            else map_option (Pair OMX_ErrorNone)
                   (updatePortParams sz (s3\<lparr>mColorFormat := eColorFormat (video port)\<rparr>)))
      else if nPortIndex port = kOutputPortIndex then
        (if eCompressionFormat (video port) \<noteq> mCodingType s
            \<or> eColorFormat (video port) \<noteq> OMX_COLOR_FormatUnused
         then Some (OMX_ErrorUnsupportedSetting, s)
         else map_option (Pair OMX_ErrorNone)
                (updatePortParams sz (s\<lparr>mBitrate := nBitrate (video port)\<rparr>)))
      else Some (OMX_ErrorBadPortIndex, s))"

text \<open>
  A parameter request: the index together with the structure it points to. The indices
  the component does not handle itself are \<open>OMX_IndexOther\<close>.
\<close>

datatype omx_param =
    OMX_IndexParamVideoErrorCorrection
  | OMX_IndexParamStandardComponentRole OMX_PARAM_COMPONENTROLETYPE
  | OMX_IndexParamPortDefinition OMX_PARAM_PORTDEFINITIONTYPE
  | OMX_IndexParamVideoPortFormat OMX_VIDEO_PARAM_PORTFORMATTYPE
  | OMX_IndexParamVideoProfileLevelQuerySupported OMX_VIDEO_PARAM_PROFILELEVELTYPE
  | OMX_IndexParamConsumerUsageBits u32
  | kStoreMetaDataExtensionIndex StoreMetaDataInBuffersParams
  | OMX_IndexOther nat

definition OMX_MAX_STRINGNAME_SIZE :: nat where
  "OMX_MAX_STRINGNAME_SIZE = 128"

text \<open>
  \<open>internalSetParameter\<close>. The base class \<open>SimpleSoftOMXComponent\<close> is outside this source
  file: its \<open>internalSetParameter\<close> is the parameter \<open>base\<close>.
\<close>

fun internalSetParameter ::
  "(component \<Rightarrow> omx_param \<Rightarrow> (OMX_ERRORTYPE \<times> component) option) \<Rightarrow>
   metadata_sizes \<Rightarrow> component \<Rightarrow> omx_param \<Rightarrow> (OMX_ERRORTYPE \<times> component) option" where
  "internalSetParameter base sz s OMX_IndexParamVideoErrorCorrection =
     Some (OMX_ErrorNotImplemented, s)"
| "internalSetParameter base sz s (OMX_IndexParamStandardComponentRole roleParams) =
     (if \<not> role_validOMXParam roleParams then Some (OMX_ErrorBadParameter, s)
      else if take (OMX_MAX_STRINGNAME_SIZE - 1) (cRole roleParams)
              \<noteq> take (OMX_MAX_STRINGNAME_SIZE - 1) (mComponentRole s)
      then Some (OMX_ErrorUnsupportedSetting, s)
      else Some (OMX_ErrorNone, s))"
| "internalSetParameter base sz s (OMX_IndexParamPortDefinition port) =
     (case internalSetPortParams sz s port of
        None \<Rightarrow> None
      | Some (err, s') \<Rightarrow>
          if err \<noteq> OMX_ErrorNone then Some (err, s')
          else base s' (OMX_IndexParamPortDefinition port))"
| "internalSetParameter base sz s (OMX_IndexParamVideoPortFormat format) =
     (if \<not> fmt_validOMXParam format then Some (OMX_ErrorBadParameter, s)
      else if fmt_nPortIndex format = kInputPortIndex then
        (if fmt_eColorFormat format = OMX_COLOR_FormatYUV420Planar
            \<or> fmt_eColorFormat format = OMX_COLOR_FormatYUV420SemiPlanar
            \<or> fmt_eColorFormat format = OMX_COLOR_FormatAndroidOpaque
         then map_option (Pair OMX_ErrorNone)
                (updatePortParams sz (s\<lparr>mColorFormat := fmt_eColorFormat format\<rparr>))
         else Some (OMX_ErrorUnsupportedSetting, s))
      else if fmt_nPortIndex format = kOutputPortIndex then
        (if fmt_eCompressionFormat format = mCodingType s
         then Some (OMX_ErrorNone, s)
         else Some (OMX_ErrorUnsupportedSetting, s))
      else Some (OMX_ErrorBadPortIndex, s))"
| "internalSetParameter base sz s (kStoreMetaDataExtensionIndex storeParam) =
     (if \<not> smd_validOMXParam storeParam then Some (OMX_ErrorBadParameter, s)
      else if smd_nPortIndex storeParam = kOutputPortIndex then
        Some (if truthy (bStoreMetaData storeParam)
              then OMX_ErrorUnsupportedSetting else OMX_ErrorNone, s)
      else if smd_nPortIndex storeParam \<noteq> kInputPortIndex then Some (OMX_ErrorBadPortIndex, s)
      else
        (let s1 = s\<lparr>mInputDataIsMeta := (bStoreMetaData storeParam = OMX_TRUE)\<rparr>;
             s2 = (if mInputDataIsMeta s1
                   then s1\<lparr>mColorFormat := OMX_COLOR_FormatAndroidOpaque\<rparr>
                   else if mColorFormat s1 = OMX_COLOR_FormatAndroidOpaque
                   then s1\<lparr>mColorFormat := OMX_COLOR_FormatYUV420Planar\<rparr>
                   else s1)
         in map_option (Pair OMX_ErrorNone) (updatePortParams sz s2)))"
| "internalSetParameter base sz s p = base s p"

section \<open>Construction\<close>

text \<open>
  The constructor and \<open>initPorts\<close>. The property \<open>ro.hardware.egl\<close> is read from the
  system: its value is the parameter \<open>egl\<close> (\<open>property_get\<close> returns its length). The two
  ports do not exist before \<open>initPorts\<close> adds them; \<open>blankPort\<close> fills the fields until
  then, and \<open>initPorts\<close> overwrites every one of them.
\<close>

definition blankPort :: OMX_PARAM_PORTDEFINITIONTYPE where
  "blankPort =
     \<lparr>validOMXParam = True, nPortIndex = 0, eDir = OMX_DirInput, nBufferCountActual = 0,
      nBufferCountMin = 0, nBufferSize = 0, bEnabled = OMX_FALSE, bPopulated = OMX_FALSE,
      bBuffersContiguous = OMX_FALSE, nBufferAlignment = 0,
      video = \<lparr>cMIMEType = [], nFrameWidth = 0, nFrameHeight = 0, nStride = 0,
               nSliceHeight = 0, nBitrate = 0, xFramerate = 0,
               bFlagErrorConcealment = OMX_FALSE,
               eCompressionFormat = OMX_VIDEO_CodingUnused,
               eColorFormat = OMX_COLOR_FormatUnused\<rparr>\<rparr>"

definition SoftVideoEncoderOMXComponent ::
  "string \<Rightarrow> string \<Rightarrow> OMX_VIDEO_CODINGTYPE \<Rightarrow> CodecProfileLevel list \<Rightarrow> s32 \<Rightarrow> s32 \<Rightarrow>
   component" where
  "SoftVideoEncoderOMXComponent egl componentRole codingType profileLevels width height =
     \<lparr>mInputDataIsMeta = False,
      mWidth = width,
      mHeight = height,
      mBitrate = 192000,
      mFramerate = push_bit 16 30,
      mColorFormat = OMX_COLOR_FormatYUV420Planar,
      mMinOutputBufferSize = 384,
      mMinCompressionRatio = 1,
      mComponentRole = componentRole,
      mCodingType = codingType,
      mProfileLevels = profileLevels,
      mIsPowervr = (length egl > 0 \<and> egl = ''powervr''),
      mEglDisplay = False,
      mShmData = None,
      inDef = blankPort,
      outDef = blankPort\<rparr>"

definition initPorts ::
  "metadata_sizes \<Rightarrow> component \<Rightarrow> u32 \<Rightarrow> u32 \<Rightarrow> u32 \<Rightarrow> string \<Rightarrow> u32 \<Rightarrow> component option" where
  "initPorts sz s numInputBuffers numOutputBuffers outputBufferSize mime minCompressionRatio =
     (let s1 = s\<lparr>mMinOutputBufferSize := outputBufferSize,
                 mMinCompressionRatio := minCompressionRatio\<rparr>;
          defIn =
            \<lparr>validOMXParam = True, nPortIndex = kInputPortIndex, eDir = OMX_DirInput,
             nBufferCountActual = numInputBuffers, nBufferCountMin = numInputBuffers,
             nBufferSize = nBufferSize (inDef s),
             bEnabled = OMX_TRUE, bPopulated = OMX_FALSE, bBuffersContiguous = OMX_FALSE,
             nBufferAlignment = kInputBufferAlignment,
             video = \<lparr>cMIMEType = ''video/raw'', nFrameWidth = mWidth s1,
                      nFrameHeight = mHeight s1, nStride = mWidth s1,
                      nSliceHeight = mHeight s1, nBitrate = 0, xFramerate = mFramerate s1,
                      bFlagErrorConcealment = OMX_FALSE,
                      eCompressionFormat = OMX_VIDEO_CodingUnused,
                      eColorFormat = mColorFormat s1\<rparr>\<rparr>;
          defOut =
            \<lparr>validOMXParam = True, nPortIndex = kOutputPortIndex, eDir = OMX_DirOutput,
             nBufferCountActual = numOutputBuffers, nBufferCountMin = numOutputBuffers,
             nBufferSize = nBufferSize (outDef s),
             bEnabled = OMX_TRUE, bPopulated = OMX_FALSE, bBuffersContiguous = OMX_FALSE,
             nBufferAlignment = kOutputBufferAlignment,
             video = \<lparr>cMIMEType = mime, nFrameWidth = mWidth s1,
                      nFrameHeight = mHeight s1, nStride = 0,
                      nSliceHeight = 0, nBitrate = mBitrate s1, xFramerate = 0,
                      bFlagErrorConcealment = OMX_FALSE,
                      eCompressionFormat = mCodingType s1,
                      eColorFormat = OMX_COLOR_FormatUnused\<rparr>\<rparr>
      in updatePortParams sz (s1\<lparr>inDef := defIn, outDef := defOut\<rparr>))"

section \<open>Input buffer validation\<close>

text \<open>
  \<open>validateInputBuffer\<close>. The raw frame size \<open>mWidth * mHeight * 3 / 2\<close> is computed in
  \<open>int32_t\<close> (two's complement, signed division) and then converted to \<open>size_t\<close> with
  sign extension; \<open>nFilledLen\<close> is an \<open>OMX_U32\<close>, zero-extended for the comparison.
  The second component of the result says whether the warning for an oversized buffer
  was logged.
\<close>

definition frameSize :: "metadata_sizes \<Rightarrow> component \<Rightarrow> size_t" where
  "frameSize sz s =
     (if mInputDataIsMeta s then metadataSize sz
      else scast (s32_div (mWidth s * mHeight s * 3) 2))"

definition validateInputBuffer ::
  "metadata_sizes \<Rightarrow> component \<Rightarrow> u32 \<Rightarrow> OMX_ERRORTYPE \<times> bool" where
  "validateInputBuffer sz s nFilledLen =
     (if (ucast nFilledLen :: size_t) < frameSize sz s then (OMX_ErrorUndefined, False)
      else if (ucast nFilledLen :: size_t) > frameSize sz s then (OMX_ErrorNone, True)
      else (OMX_ErrorNone, False))"

section \<open>Parameter queries\<close>

text \<open>
  \<open>kSupportedColorFormats\<close>, in order of preference, and the gralloc usage flag of
  hardware/gralloc.h.
\<close>

definition kSupportedColorFormats :: "OMX_COLOR_FORMATTYPE list" where
  "kSupportedColorFormats =
     [OMX_COLOR_FormatYUV420Planar, OMX_COLOR_FormatYUV420SemiPlanar,
      OMX_COLOR_FormatAndroidOpaque]"

definition GRALLOC_USAGE_SW_READ_OFTEN :: u32 where
  "GRALLOC_USAGE_SW_READ_OFTEN = 3"

text \<open>
  \<open>internalGetParameter\<close>. The result is the error code, the structure the caller's
  pointer refers to after the call, and the component. The base class is outside this
  source file: \<open>baseDef\<close> is its \<open>internalGetParameter\<close> on a port definition and
  \<open>base\<close> on every other index. \<open>egl\<close> is the value \<open>property_get\<close> reads for
  \<open>ro.hardware.egl\<close>. A failing \<open>CHECK\<close> aborts the process: the model returns \<open>None\<close>.
\<close>

fun internalGetParameter ::
  "(component \<Rightarrow> OMX_PARAM_PORTDEFINITIONTYPE \<Rightarrow>
      (OMX_ERRORTYPE \<times> OMX_PARAM_PORTDEFINITIONTYPE \<times> component) option) \<Rightarrow>
   (component \<Rightarrow> omx_param \<Rightarrow> (OMX_ERRORTYPE \<times> omx_param \<times> component) option) \<Rightarrow>
   string \<Rightarrow> component \<Rightarrow> omx_param \<Rightarrow> (OMX_ERRORTYPE \<times> omx_param \<times> component) option" where
  "internalGetParameter baseDef base egl s OMX_IndexParamVideoErrorCorrection =
     Some (OMX_ErrorNotImplemented, OMX_IndexParamVideoErrorCorrection, s)"
| "internalGetParameter baseDef base egl s (OMX_IndexParamVideoPortFormat formatParams) =
     (if \<not> fmt_validOMXParam formatParams
      then Some (OMX_ErrorBadParameter, OMX_IndexParamVideoPortFormat formatParams, s)
      else if fmt_nPortIndex formatParams = kInputPortIndex then
        (if unat (fmt_nIndex formatParams) \<ge> length kSupportedColorFormats
         then Some (OMX_ErrorNoMore, OMX_IndexParamVideoPortFormat formatParams, s)
         else Some (OMX_ErrorNone,
                OMX_IndexParamVideoPortFormat
                  (formatParams\<lparr>fmt_eColorFormat :=
                                   kSupportedColorFormats ! unat (fmt_nIndex formatParams),
                                 fmt_eCompressionFormat := OMX_VIDEO_CodingUnused,
                                 fmt_xFramerate := mFramerate s\<rparr>), s))
      else if fmt_nPortIndex formatParams = kOutputPortIndex then
        Some (OMX_ErrorNone,
              OMX_IndexParamVideoPortFormat
                (formatParams\<lparr>fmt_eCompressionFormat := mCodingType s,
                               fmt_eColorFormat := OMX_COLOR_FormatUnused,
                               fmt_xFramerate := 0\<rparr>), s)
      else Some (OMX_ErrorBadPortIndex, OMX_IndexParamVideoPortFormat formatParams, s))"
| "internalGetParameter baseDef base egl s
       (OMX_IndexParamVideoProfileLevelQuerySupported profileLevel) =
     (if \<not> pl_validOMXParam profileLevel
      then Some (OMX_ErrorBadParameter,
                 OMX_IndexParamVideoProfileLevelQuerySupported profileLevel, s)
      else if pl_nPortIndex profileLevel \<noteq> kOutputPortIndex
      then Some (OMX_ErrorUnsupportedIndex,
                 OMX_IndexParamVideoProfileLevelQuerySupported profileLevel, s)
      else if unat (nProfileIndex profileLevel) \<ge> length (mProfileLevels s)
      then Some (OMX_ErrorNoMore,
                 OMX_IndexParamVideoProfileLevelQuerySupported profileLevel, s)
      else Some (OMX_ErrorNone,
             OMX_IndexParamVideoProfileLevelQuerySupported
               (profileLevel\<lparr>eProfile :=
                    mProfile (mProfileLevels s ! unat (nProfileIndex profileLevel)),
                  eLevel :=
                    mLevel (mProfileLevels s ! unat (nProfileIndex profileLevel))\<rparr>), s))"
| "internalGetParameter baseDef base egl s (OMX_IndexParamConsumerUsageBits usageBits) =
     Some (OMX_ErrorNone, OMX_IndexParamConsumerUsageBits GRALLOC_USAGE_SW_READ_OFTEN, s)"
| "internalGetParameter baseDef base egl s (OMX_IndexParamPortDefinition def) =
     (if nPortIndex def > 1
      then Some (OMX_ErrorUndefined, OMX_IndexParamPortDefinition def, s)
      else
        (case baseDef s def of
           None \<Rightarrow> None
         | Some (err, def1, s1) \<Rightarrow>
             if OMX_ErrorNone \<noteq> err then Some (err, OMX_IndexParamPortDefinition def1, s1)
             else
               (let def2 = def1\<lparr>video := (video def1)\<lparr>nFrameWidth := mWidth s1,
                                                         nFrameHeight := mHeight s1\<rparr>\<rparr>;
                    isMesa = (length egl > 0 \<and> egl = ''mesa'');
                    isPowervr = (length egl > 0 \<and> egl = ''powervr'');
                    isEmulation = (length egl > 0 \<and> egl = ''emulation'')
                in if \<not> isMesa \<and> \<not> isPowervr \<and> \<not> isEmulation
                      \<and> \<not> (mColorFormat s1 = OMX_COLOR_FormatYUV420Planar
                            \<or> mColorFormat s1 = OMX_COLOR_FormatYUV420SemiPlanar)
                   then None
                   else Some (OMX_ErrorNone,
                          OMX_IndexParamPortDefinition
                            (def2\<lparr>nBufferSize := s32_div (mWidth s1 * mHeight s1 * 3) 2\<rparr>),
                          s1))))"
| "internalGetParameter baseDef base egl s p = base s p"

section \<open>Pixel buffers\<close>

text \<open>
  A buffer is the list of the bytes from the pointer the code receives onwards, and a
  pointer into it is an offset. The C++ code checks no bounds: an access outside the
  buffer is undefined behaviour, which the model reports as \<open>None\<close>. Multi-byte accesses
  are little-endian, as on every Android target. \<open>size_t\<close> offsets inside a buffer are
  natural numbers: a buffer is shorter than \<open>2^64\<close> bytes, so they do not wrap.
\<close>

definition load8 :: "u8 list \<Rightarrow> nat \<Rightarrow> u8 option" where
  "load8 m p = (if p < length m then Some (m ! p) else None)"

definition store8 :: "u8 list \<Rightarrow> nat \<Rightarrow> u8 \<Rightarrow> u8 list option" where
  "store8 m p v = (if p < length m then Some (m[p := v]) else None)"

definition load32 :: "u8 list \<Rightarrow> nat \<Rightarrow> u32 option" where
  "load32 m p =
     (if p + 4 \<le> length m
      then Some (ucast (m ! p) OR push_bit 8 (ucast (m ! (p + 1)))
                 OR push_bit 16 (ucast (m ! (p + 2))) OR push_bit 24 (ucast (m ! (p + 3))))
      else None)"

definition store16 :: "u8 list \<Rightarrow> nat \<Rightarrow> u16 \<Rightarrow> u8 list option" where
  "store16 m p v =
     (if p + 2 \<le> length m then Some (m[p := ucast v, p + 1 := ucast (drop_bit 8 v)])
      else None)"

definition memcpy :: "u8 list \<Rightarrow> nat \<Rightarrow> u8 list \<Rightarrow> nat \<Rightarrow> nat \<Rightarrow> u8 list option" where
  "memcpy dst d src s n =
     (if d + n \<le> length dst \<and> s + n \<le> length src
      then Some (take d dst @ take n (drop s src) @ drop (d + n) dst)
      else None)"

section \<open>Semiplanar to planar conversion\<close>

text \<open>
  \<open>ConvertYUV420SemiPlanarToYUV420Planar\<close>. \<open>uv_row\<close> is the inner loop, whose counter
  \<open>j\<close> runs down from \<open>width >> 2\<close>; \<open>uv_rows\<close> is the outer loop, whose counter runs
  down from \<open>height >> 1\<close>. Each step reads one 32-bit word of interleaved chroma and
  writes one 16-bit word to each chroma plane. \<open>outYsize = width * height\<close> is an
  \<open>int32_t\<close> that wraps; a negative value becomes a huge \<open>size_t\<close> in \<open>memcpy\<close>, which
  runs out of the buffers.
\<close>

fun uv_row ::
  "u8 list \<Rightarrow> nat \<Rightarrow> nat \<Rightarrow> nat \<Rightarrow> nat \<Rightarrow> u8 list \<Rightarrow> (nat \<times> nat \<times> nat \<times> u8 list) option" where
  "uv_row inYVU 0 inYVU_4 outCb outCr out = Some (inYVU_4, outCb, outCr, out)"
| "uv_row inYVU (Suc j) inYVU_4 outCb outCr out =
     do {
       temp \<leftarrow> load32 inYVU inYVU_4;
       let tempU = (temp AND 0xFF) OR (drop_bit 8 temp AND 0xFF00);
       let tempV = (drop_bit 8 temp AND 0xFF) OR (drop_bit 16 temp AND 0xFF00);
       out1 \<leftarrow> store16 out outCb (ucast tempU);
       out2 \<leftarrow> store16 out1 outCr (ucast tempV);
       uv_row inYVU j (inYVU_4 + 4) (outCb + 2) (outCr + 2) out2
     }"

fun uv_rows ::
  "u8 list \<Rightarrow> nat \<Rightarrow> nat \<Rightarrow> nat \<Rightarrow> nat \<Rightarrow> nat \<Rightarrow> u8 list \<Rightarrow>
   (nat \<times> nat \<times> nat \<times> u8 list) option" where
  "uv_rows inYVU w4 0 inYVU_4 outCb outCr out = Some (inYVU_4, outCb, outCr, out)"
| "uv_rows inYVU w4 (Suc i) inYVU_4 outCb outCr out =
     do {
       (inYVU_4', outCb', outCr', out') \<leftarrow> uv_row inYVU w4 inYVU_4 outCb outCr out;
       uv_rows inYVU w4 i inYVU_4' outCb' outCr' out'
     }"

definition ConvertYUV420SemiPlanarToYUV420Planar ::
  "u8 list \<Rightarrow> u8 list \<Rightarrow> s32 \<Rightarrow> s32 \<Rightarrow> u8 list option" where
  "ConvertYUV420SemiPlanarToYUV420Planar inYVU outYUV width height =
     (let outYsize = width * height in
      if sint outYsize < 0 then None
      else
        do {
          let outCb = nat (sint outYsize);
          let outCr = nat (sint outYsize) + nat (sint (signed_drop_bit 2 outYsize));
          out1 \<leftarrow> memcpy outYUV 0 inYVU 0 (nat (sint outYsize));
          (inYVU_4, outCb', outCr', out2) \<leftarrow>
            uv_rows inYVU (nat (sint (signed_drop_bit 2 width)))
              (nat (sint (signed_drop_bit 1 height))) (nat (sint outYsize)) outCb outCr out1;
          Some out2
        })"

section \<open>RGB to planar conversion\<close>

text \<open>
  The colour matrix of \<open>ConvertRGB32ToPlanar\<close>, in \<open>unsigned\<close> (32-bit) arithmetic:
  the products and sums wrap, \<open>>>\<close> is a logical shift, and the result is cut to a
  byte when it is stored.
\<close>

definition rgb_luma :: "u32 \<Rightarrow> u32 \<Rightarrow> u32 \<Rightarrow> u32" where
  "rgb_luma red green blue = drop_bit 8 (red * 65 + green * 129 + blue * 25 + 128) + 16"

definition rgb_U :: "u32 \<Rightarrow> u32 \<Rightarrow> u32 \<Rightarrow> u32" where
  "rgb_U red green blue = drop_bit 8 (- red * 38 - green * 74 + blue * 112 + 128) + 128"

definition rgb_V :: "u32 \<Rightarrow> u32 \<Rightarrow> u32 \<Rightarrow> u32" where
  "rgb_V red green blue = drop_bit 8 (red * 112 - green * 94 - blue * 18 + 128) + 128"

text \<open>
  \<open>rgb_row\<close> is the loop over \<open>x\<close> of one row and \<open>rgb_rows\<close> the loop over \<open>y\<close>.
  \<open>srcp\<close>, \<open>dstY\<close>, \<open>dstU\<close> and \<open>dstV\<close> are the running pointers \<open>src\<close>, \<open>dstY\<close>,
  \<open>dstU\<close> and \<open>dstV\<close> of the source.
\<close>

function rgb_row ::
  "u8 list \<Rightarrow> nat \<Rightarrow> nat \<Rightarrow> nat \<Rightarrow> nat \<Rightarrow> nat \<Rightarrow> nat \<Rightarrow> nat \<Rightarrow> nat \<Rightarrow> nat \<Rightarrow> nat \<Rightarrow> u8 list \<Rightarrow>
   (nat \<times> u8 list) option" where
  "rgb_row src redOffset greenOffset blueOffset width y x srcp dstY dstU dstV dst =
     (if x < width then
        do {
          red \<leftarrow> load8 src (srcp + redOffset);
          green \<leftarrow> load8 src (srcp + greenOffset);
          blue \<leftarrow> load8 src (srcp + blueOffset);
          dst1 \<leftarrow> store8 dst (dstY + x)
                    (ucast (rgb_luma (ucast red) (ucast green) (ucast blue)));
          dst2 \<leftarrow> (if even x \<and> even y then
                      do {
                        d \<leftarrow> store8 dst1 (dstU + x div 2)
                               (ucast (rgb_U (ucast red) (ucast green) (ucast blue)));
                        store8 d (dstV + x div 2)
                          (ucast (rgb_V (ucast red) (ucast green) (ucast blue)))
                      }
                    else Some dst1);
          rgb_row src redOffset greenOffset blueOffset width y (x + 1) (srcp + 4)
            dstY dstU dstV dst2
        }
      else Some (srcp, dst))"
  by pat_completeness auto

termination
  by (relation "measure (\<lambda>(src, ro, go, bo, width, y, x, rest). width - x)") auto

declare rgb_row.simps [simp del]

function rgb_rows ::
  "u8 list \<Rightarrow> nat \<Rightarrow> nat \<Rightarrow> nat \<Rightarrow> nat \<Rightarrow> nat \<Rightarrow> nat \<Rightarrow> nat \<Rightarrow> nat \<Rightarrow> nat \<Rightarrow> nat \<Rightarrow> nat \<Rightarrow> nat \<Rightarrow>
   u8 list \<Rightarrow> u8 list option" where
  "rgb_rows src redOffset greenOffset blueOffset width height srcStride dstStride
      y srcp dstY dstU dstV dst =
     (if y < height then
        do {
          (srcp1, dst1) \<leftarrow> rgb_row src redOffset greenOffset blueOffset width y 0 srcp
                              dstY dstU dstV dst;
          rgb_rows src redOffset greenOffset blueOffset width height srcStride dstStride
            (y + 1) (srcp1 + srcStride - 4 * width) (dstY + dstStride)
            (if even y then dstU + dstStride div 2 else dstU)
            (if even y then dstV + dstStride div 2 else dstV) dst1
        }
      else Some dst)"
  by pat_completeness auto

termination
  by (relation "measure (\<lambda>(src, ro, go, bo, width, height, ss, ds, y, rest). height - y)") auto

declare rgb_rows.simps [simp del]

text \<open>
  \<open>ConvertRGB32ToPlanar\<close>. The two \<open>CHECK\<close>s abort for an odd width or height. The macro
  \<open>SURFACE_IS_BGR32\<close> is set by the build, not by this source file: whether it is
  defined is the first parameter.
\<close>

definition ConvertRGB32ToPlanar ::
  "bool \<Rightarrow> u8 list \<Rightarrow> nat \<Rightarrow> nat \<Rightarrow> u8 list \<Rightarrow> nat \<Rightarrow> nat \<Rightarrow> nat \<Rightarrow> bool \<Rightarrow> u8 list option" where
  "ConvertRGB32ToPlanar SURFACE_IS_BGR32 dst dstStride dstVStride src width height srcStride bgr =
     (if odd width then None
      else if odd height then None
      else
        (let dstY = 0;
             dstU = dstY + dstStride * dstVStride;
             dstV = dstU + (dstStride div 2) * (dstVStride div 2);
             bgr1 = (if SURFACE_IS_BGR32 then \<not> bgr else bgr);
             redOffset = (if bgr1 then 2 else 0);
             greenOffset = 1;
             blueOffset = (if bgr1 then 0 else 2)
         in rgb_rows src redOffset greenOffset blueOffset width height srcStride dstStride
              0 0 dstY dstU dstV dst))"

section \<open>Flexible YUV to planar conversion\<close>

text \<open>
  \<open>struct android_ycbcr\<close>: the plane pointers are offsets into the mapped image.
\<close>

record android_ycbcr =
  ycbcr_y :: nat
  ycbcr_cb :: nat
  ycbcr_cr :: nat
  ystride :: nat
  cstride :: nat
  chroma_step :: nat

text \<open>
  \<open>ConvertFlexYUVToPlanar\<close>: the luma rows, then the chroma rows, copied row by row
  when the source chroma is planar and byte by byte otherwise.
\<close>

fun flex_luma_rows ::
  "u8 list \<Rightarrow> nat \<Rightarrow> nat \<Rightarrow> nat \<Rightarrow> nat \<Rightarrow> nat \<Rightarrow> nat \<Rightarrow> u8 list \<Rightarrow> u8 list option" where
  "flex_luma_rows bits width dstStride srcStride 0 dstp srcp dst = Some dst"
| "flex_luma_rows bits width dstStride srcStride (Suc n) dstp srcp dst =
     do {
       dst1 \<leftarrow> memcpy dst dstp bits srcp width;
       flex_luma_rows bits width dstStride srcStride n (dstp + dstStride) (srcp + srcStride) dst1
     }"

fun flex_planar_rows ::
  "u8 list \<Rightarrow> nat \<Rightarrow> nat \<Rightarrow> nat \<Rightarrow> nat \<Rightarrow> nat \<Rightarrow> nat \<Rightarrow> nat \<Rightarrow> nat \<Rightarrow> u8 list \<Rightarrow>
   u8 list option" where
  "flex_planar_rows bits width dstStride c_stride 0 dstU srcU dstV srcV dst = Some dst"
| "flex_planar_rows bits width dstStride c_stride (Suc n) dstU srcU dstV srcV dst =
     do {
       dst1 \<leftarrow> memcpy dst dstU bits srcU (width div 2);
       dst2 \<leftarrow> memcpy dst1 dstV bits srcV (width div 2);
       flex_planar_rows bits width dstStride c_stride n
         (dstU + dstStride div 2) (srcU + c_stride) (dstV + dstStride div 2) (srcV + c_stride) dst2
     }"

fun flex_chroma_row ::
  "u8 list \<Rightarrow> nat \<Rightarrow> nat \<Rightarrow> nat \<Rightarrow> nat \<Rightarrow> nat \<Rightarrow> nat \<Rightarrow> u8 list \<Rightarrow>
   (nat \<times> nat \<times> nat \<times> nat \<times> u8 list) option" where
  "flex_chroma_row bits step 0 dstU srcU dstV srcV dst = Some (dstU, srcU, dstV, srcV, dst)"
| "flex_chroma_row bits step (Suc x) dstU srcU dstV srcV dst =
     do {
       u \<leftarrow> load8 bits srcU;
       dst1 \<leftarrow> store8 dst dstU u;
       v \<leftarrow> load8 bits srcV;
       dst2 \<leftarrow> store8 dst1 dstV v;
       flex_chroma_row bits step x (dstU + 1) (srcU + step) (dstV + 1) (srcV + step) dst2
     }"

fun flex_chroma_rows ::
  "u8 list \<Rightarrow> nat \<Rightarrow> nat \<Rightarrow> nat \<Rightarrow> nat \<Rightarrow> nat \<Rightarrow> nat \<Rightarrow> nat \<Rightarrow> nat \<Rightarrow> nat \<Rightarrow> u8 list \<Rightarrow>
   u8 list option" where
  "flex_chroma_rows bits width dstStride c_stride step 0 dstU srcU dstV srcV dst = Some dst"
| "flex_chroma_rows bits width dstStride c_stride step (Suc n) dstU srcU dstV srcV dst =
     do {
       (dstU1, srcU1, dstV1, srcV1, dst1) \<leftarrow>
          flex_chroma_row bits step (width div 2) dstU srcU dstV srcV dst;
       flex_chroma_rows bits width dstStride c_stride step n
         (dstU1 + dstStride div 2 - width div 2)
         (srcU1 + c_stride - (width div 2) * step)
         (dstV1 + dstStride div 2 - width div 2)
         (srcV1 + c_stride - (width div 2) * step) dst1
     }"

definition ConvertFlexYUVToPlanar ::
  "u8 list \<Rightarrow> nat \<Rightarrow> nat \<Rightarrow> u8 list \<Rightarrow> android_ycbcr \<Rightarrow> nat \<Rightarrow> nat \<Rightarrow> u8 list option" where
  "ConvertFlexYUVToPlanar dst dstStride dstVStride bits ycbcr width height =
     (let src = ycbcr_y ycbcr;
          srcU = ycbcr_cb ycbcr;
          srcV = ycbcr_cr ycbcr;
          dstU = dstVStride * dstStride;
          dstV = dstU + (dstVStride div 2) * (dstStride div 2)
      in do {
           dst1 \<leftarrow> flex_luma_rows bits width dstStride (ystride ycbcr) height 0 src dst;
           if cstride ycbcr = ystride ycbcr div 2 \<and> chroma_step ycbcr = 1
           then flex_planar_rows bits width dstStride (cstride ycbcr) (height div 2)
                  dstU srcU dstV srcV dst1
           else flex_chroma_rows bits width dstStride (cstride ycbcr) (chroma_step ycbcr)
                  (height div 2) dstU srcU dstV srcV dst1
         })"


section \<open>Graphic buffer extraction\<close>

text \<open>
  The pixel formats \<open>extractGraphicBuffer\<close> distinguishes; every other value of
  \<open>buffer->format\<close> is \<open>HAL_PIXEL_FORMAT_OTHER\<close>.
\<close>

datatype pixel_format =
    HAL_PIXEL_FORMAT_RGBA_8888
  | HAL_PIXEL_FORMAT_RGBX_8888
  | HAL_PIXEL_FORMAT_BGRA_8888
  | HAL_PIXEL_FORMAT_YV12
  | HAL_PIXEL_FORMAT_YCrCb_420_SP
  | HAL_PIXEL_FORMAT_YCbCr_420_888
  | HAL_PIXEL_FORMAT_OTHER nat

text \<open>
  The fields of \<open>ANativeWindowBuffer\<close> the code reads, and the metadata the source
  buffer holds, by its \<open>MetadataBufferType\<close>: a \<open>VideoNativeMetadata\<close> (\<open>pBuffer\<close> and
  \<open>nFenceFd\<close>) for \<open>kMetadataBufferTypeANWBuffer\<close>, a \<open>VideoGrallocMetadata\<close>
  (\<open>pHandle\<close>) for \<open>kMetadataBufferTypeGrallocSource\<close>, and any other type.
\<close>

record ANativeWindowBuffer =
  anb_handle :: nat
  anb_format :: pixel_format
  anb_stride :: nat
  anb_height :: nat

datatype metadata =
    VideoNativeMetadata ANativeWindowBuffer int
  | VideoGrallocMetadata nat
  | OtherMetadata

text \<open>
  The services of the platform the function calls: \<open>fence_wait fd\<close> is true when
  \<open>Fence(fd).wait(kFenceTimeoutMs)\<close> returns \<open>OK\<close>; \<open>mapper_lock\<close> and
  \<open>mapper_lockYCbCr\<close> give the mapped image of a handle, or \<open>None\<close> when the lock
  fails; \<open>gl_readPixels\<close> gives the RGBA pixels that the render pass of the imported
  buffer leaves in the scratch buffer.
\<close>

record platform =
  fence_wait :: "int \<Rightarrow> bool"
  mapper_lock :: "nat \<Rightarrow> u8 list option"
  mapper_lockYCbCr :: "nat \<Rightarrow> (android_ycbcr \<times> u8 list) option"
  gl_readPixels :: "metadata \<Rightarrow> nat \<Rightarrow> nat \<Rightarrow> u8 list"

text \<open>
  \<open>neededSize\<close>, in \<open>size_t\<close> arithmetic: the subtraction and the sum wrap modulo
  \<open>2^64\<close>.
\<close>

definition neededSize :: "nat \<Rightarrow> nat \<Rightarrow> nat \<Rightarrow> nat \<Rightarrow> nat" where
  "neededSize dstStride dstVStride width height =
     (dstStride * dstVStride + width div 2
        + (dstStride div 2) * ((dstVStride div 2 + height div 2 + 2 ^ 64 - 1) mod 2 ^ 64))
     mod 2 ^ 64"

text \<open>
  The render-and-read-back path of the PowerVR build: the pixels are read into
  \<open>mShmData\<close> (a null or too small array is undefined behaviour) and converted from
  there.
\<close>

definition convertFromTexture ::
  "platform \<Rightarrow> bool \<Rightarrow> component \<Rightarrow> u8 list \<Rightarrow> nat \<Rightarrow> nat \<Rightarrow> metadata \<Rightarrow> nat \<Rightarrow> nat \<Rightarrow>
   nat \<Rightarrow> bool \<Rightarrow> u8 list option" where
  "convertFromTexture env SURFACE_IS_BGR32 s dst dstStride dstVStride src width height
       srcStride bgr =
     (case mShmData s of
        None \<Rightarrow> None
      | Some count \<Rightarrow>
          if nat (sint count) < width * height * 4 then None
          else ConvertRGB32ToPlanar SURFACE_IS_BGR32 dst dstStride dstVStride
                 (gl_readPixels env src width height) width height srcStride bgr)"

text \<open>
  The part of \<open>extractGraphicBuffer\<close> after the metadata has been read: the size check,
  the lock and the conversion by pixel format. The result is whether the pointer
  returned is the destination (and not \<open>NULL\<close>) and the destination buffer.
\<close>

definition extractLocked ::
  "platform \<Rightarrow> bool \<Rightarrow> component \<Rightarrow> u8 list \<Rightarrow> nat \<Rightarrow> metadata \<Rightarrow> nat \<Rightarrow> nat \<Rightarrow>
   nat \<Rightarrow> pixel_format \<Rightarrow> nat \<Rightarrow> nat \<Rightarrow> (bool \<times> u8 list) option" where
  "extractLocked env SURFACE_IS_BGR32 s dst dstSize src width height
       handle format srcStride srcVStride =
     (let dstStride = width; dstVStride = height in
      if dstSize < neededSize dstStride dstVStride width height then Some (False, dst)
      else
        (case (if format = HAL_PIXEL_FORMAT_YCbCr_420_888
               then mapper_lockYCbCr env handle
               else map_option (Pair \<lparr>ycbcr_y = 0, ycbcr_cb = 0, ycbcr_cr = 0, ystride = 0,
                                       cstride = 0, chroma_step = 0\<rparr>)
                      (mapper_lock env handle)) of
           None \<Rightarrow> Some (False, dst)
         | Some (ycbcr, bits) \<Rightarrow>
             (case format of
                HAL_PIXEL_FORMAT_YV12 \<Rightarrow>
                  map_option (Pair True)
                    (ConvertFlexYUVToPlanar dst dstStride dstVStride bits
                       \<lparr>ycbcr_y = 0,
                        ycbcr_cb = srcStride * srcVStride
                                    + (srcStride div 2) * (srcVStride div 2),
                        ycbcr_cr = srcStride * srcVStride,
                        ystride = srcStride,
                        cstride = srcStride div 2,
                        chroma_step = 1\<rparr> width height)
              | HAL_PIXEL_FORMAT_YCrCb_420_SP \<Rightarrow>
                  map_option (Pair True)
                    (ConvertFlexYUVToPlanar dst dstStride dstVStride bits
                       \<lparr>ycbcr_y = 0,
                        ycbcr_cb = srcStride * srcVStride + 1,
                        ycbcr_cr = srcStride * srcVStride,
                        ystride = srcStride,
                        cstride = srcStride,
                        chroma_step = 2\<rparr> width height)
              | HAL_PIXEL_FORMAT_YCbCr_420_888 \<Rightarrow>
                  if mIsPowervr s then
                    (if mEglDisplay s
                     then map_option (Pair True)
                            (convertFromTexture env SURFACE_IS_BGR32 s dst dstStride dstVStride src
                               width height srcStride
                               (format = HAL_PIXEL_FORMAT_BGRA_8888))
                     else Some (False, dst))
                  else map_option (Pair True)
                         (ConvertFlexYUVToPlanar dst dstStride dstVStride bits ycbcr
                            width height)
              | HAL_PIXEL_FORMAT_OTHER n \<Rightarrow> Some (False, dst)
              | _ \<Rightarrow>
                  if mIsPowervr s then
                    (if mEglDisplay s
                     then map_option (Pair True)
                            (convertFromTexture env SURFACE_IS_BGR32 s dst dstStride dstVStride src
                               width height srcStride
                               (format = HAL_PIXEL_FORMAT_BGRA_8888))
                     else Some (False, dst))
                  else map_option (Pair True)
                         (ConvertRGB32ToPlanar SURFACE_IS_BGR32 dst dstStride dstVStride bits
                            width height srcStride (format = HAL_PIXEL_FORMAT_BGRA_8888)))))"

text \<open>
  \<open>extractGraphicBuffer\<close>. An unsupported metadata type and a metadata buffer that is
  too small return \<open>NULL\<close>. For a native window buffer the stride is converted from
  pixels to bytes, and a fence (\<open>nFenceFd >= 0\<close>) is waited for before anything else is
  done: when the wait fails the function returns \<open>NULL\<close>. \<open>None\<close> is undefined behaviour
  (an access outside a buffer, or a failed \<open>CHECK\<close>) in the conversion.
\<close>

definition extractGraphicBuffer ::
  "platform \<Rightarrow> bool \<Rightarrow> metadata_sizes \<Rightarrow> component \<Rightarrow> u8 list \<Rightarrow> nat \<Rightarrow> metadata \<Rightarrow> nat \<Rightarrow>
   nat \<Rightarrow> nat \<Rightarrow> (bool \<times> u8 list) option" where
  "extractGraphicBuffer env SURFACE_IS_BGR32 sz s dst dstSize src srcSize width height =
     (case src of
        OtherMetadata \<Rightarrow> Some (False, dst)
      | VideoNativeMetadata buffer nFenceFd \<Rightarrow>
          if srcSize < unat (sizeof_VideoNativeMetadata sz) then Some (False, dst)
          else
            (let handle = anb_handle buffer;
                 format = anb_format buffer;
                 srcStride = anb_stride buffer;
                 srcVStride = anb_height buffer;
                 srcStride1 = (if mIsPowervr s
                                  \<or> (format \<noteq> HAL_PIXEL_FORMAT_YV12
                                     \<and> format \<noteq> HAL_PIXEL_FORMAT_YCrCb_420_SP
                                     \<and> format \<noteq> HAL_PIXEL_FORMAT_YCbCr_420_888)
                               then srcStride * 4 else srcStride)
             in if nFenceFd \<ge> 0 \<and> \<not> fence_wait env nFenceFd then Some (False, dst)
                else extractLocked env SURFACE_IS_BGR32 s dst dstSize src width height
                       handle format srcStride1 srcVStride)
      | VideoGrallocMetadata pHandle \<Rightarrow>
          if srcSize < unat (sizeof_VideoGrallocMetadata sz) then Some (False, dst)
          else extractLocked env SURFACE_IS_BGR32 s dst dstSize src width height
                 pHandle HAL_PIXEL_FORMAT_RGBA_8888 (width * 4) height)"

section \<open>Reference definitions from the specification\<close>

text \<open>
  The output buffer size the specification states, over the natural numbers: the larger
  of the minimum output buffer size and the raw size \<open>width * height * 3 / 2\<close> of the
  input geometry divided by the minimum compression ratio.
\<close>

definition specOutputBufferSize :: "nat \<Rightarrow> nat \<Rightarrow> nat \<Rightarrow> nat \<Rightarrow> nat" where
  "specOutputBufferSize minOutputBufferSize minCompressionRatio width height =
     max minOutputBufferSize ((width * height * 3 div 2) div minCompressionRatio)"

text \<open>
  What the specification states of a configuration change from \<open>s\<close> to \<open>s'\<close> that
  makes \<open>width\<close> and \<open>height\<close> the input geometry: the component and both ports hold
  that geometry, the two policy values are those of \<open>s\<close>, and the buffer size of the
  output port is the stated size for that geometry and those policy values. The stated
  size is the one over the natural numbers, so the equation is asked for when
  \<open>width * height * 3\<close> fits \<open>uint32_t\<close>.
\<close>

definition outputBufferSizeRecomputed :: "component \<Rightarrow> u32 \<Rightarrow> u32 \<Rightarrow> component \<Rightarrow> bool" where
  "outputBufferSizeRecomputed s width height s' \<longleftrightarrow>
     mWidth s' = width \<and> mHeight s' = height \<and>
     nFrameWidth (video (inDef s')) = width \<and> nFrameHeight (video (inDef s')) = height \<and>
     nFrameWidth (video (outDef s')) = width \<and> nFrameHeight (video (outDef s')) = height \<and>
     mMinOutputBufferSize s' = mMinOutputBufferSize s \<and>
     mMinCompressionRatio s' = mMinCompressionRatio s \<and>
     (unat width * unat height * 3 < 2 ^ 32 \<longrightarrow>
        unat (nBufferSize (outDef s')) =
          specOutputBufferSize (unat (mMinOutputBufferSize s)) (unat (mMinCompressionRatio s))
            (unat width) (unat height))"

text \<open>
  The buffer length the specification expects: the larger metadata structure in metadata
  mode, \<open>width * height * 3 / 2\<close> over the integers otherwise.
\<close>

definition expectedLength :: "metadata_sizes \<Rightarrow> component \<Rightarrow> int" where
  "expectedLength sz s =
     (if mInputDataIsMeta s
      then max (uint (sizeof_VideoNativeMetadata sz)) (uint (sizeof_VideoGrallocMetadata sz))
      else sint (mWidth s) * sint (mHeight s) * 3 div 2)"

text \<open>
  The reference packer of the specification: a planar image (luma plane, Cb plane, Cr
  plane) laid out as semiplanar, the chroma bytes interleaved.
\<close>

fun interleave :: "'a list \<Rightarrow> 'a list \<Rightarrow> 'a list" where
  "interleave (c # cs) (d # ds) = c # d # interleave cs ds"
| "interleave cs ds = []"

definition packSemiPlanar :: "u8 list \<Rightarrow> u8 list \<Rightarrow> u8 list \<Rightarrow> u8 list" where
  "packSemiPlanar Y Cb Cr = Y @ interleave Cb Cr"

text \<open>
  The colour formulas of the specification, over the integers; \<open>div 2 ^ 8\<close> is the
  arithmetic shift.
\<close>

definition specY :: "int \<Rightarrow> int \<Rightarrow> int \<Rightarrow> int" where
  "specY R G B = (R * 65 + G * 129 + B * 25 + 128) div 2 ^ 8 + 16"

definition specU :: "int \<Rightarrow> int \<Rightarrow> int \<Rightarrow> int" where
  "specU R G B = (- R * 38 - G * 74 + B * 112 + 128) div 2 ^ 8 + 128"

definition specV :: "int \<Rightarrow> int \<Rightarrow> int \<Rightarrow> int" where
  "specV R G B = (R * 112 - G * 94 - B * 18 + 128) div 2 ^ 8 + 128"

text \<open>
  The channels of the source pixel \<open>(x, y)\<close>, with the red and blue offsets swapped for
  BGR order, and the offsets of the two chroma planes in the destination.
\<close>

definition pixelR :: "u8 list \<Rightarrow> nat \<Rightarrow> bool \<Rightarrow> nat \<Rightarrow> nat \<Rightarrow> int" where
  "pixelR src srcStride bgr x y = uint (src ! (y * srcStride + 4 * x + (if bgr then 2 else 0)))"

definition pixelG :: "u8 list \<Rightarrow> nat \<Rightarrow> nat \<Rightarrow> nat \<Rightarrow> int" where
  "pixelG src srcStride x y = uint (src ! (y * srcStride + 4 * x + 1))"

definition pixelB :: "u8 list \<Rightarrow> nat \<Rightarrow> bool \<Rightarrow> nat \<Rightarrow> nat \<Rightarrow> int" where
  "pixelB src srcStride bgr x y = uint (src ! (y * srcStride + 4 * x + (if bgr then 0 else 2)))"

definition planeU :: "nat \<Rightarrow> nat \<Rightarrow> nat" where
  "planeU dstStride dstVStride = dstStride * dstVStride"

definition planeV :: "nat \<Rightarrow> nat \<Rightarrow> nat" where
  "planeV dstStride dstVStride =
     dstStride * dstVStride + (dstStride div 2) * (dstVStride div 2)"

definition bgrOrder :: "bool \<Rightarrow> bool \<Rightarrow> bool" where
  "bgrOrder SURFACE_IS_BGR32 bgr = (if SURFACE_IS_BGR32 then \<not> bgr else bgr)"

text \<open>
  The bytes the conversion stores for the pixel at source offset \<open>p\<close>, and the state of
  the destination after the pixels from \<open>x0\<close> on of a row, and after the rows from \<open>y0\<close>
  on.
\<close>

definition lumaAt :: "u8 list \<Rightarrow> nat \<Rightarrow> nat \<Rightarrow> nat \<Rightarrow> nat \<Rightarrow> u8" where
  "lumaAt src ro go bo p =
     ucast (rgb_luma (ucast (src ! (p + ro))) (ucast (src ! (p + go))) (ucast (src ! (p + bo))))"

definition chromaUAt :: "u8 list \<Rightarrow> nat \<Rightarrow> nat \<Rightarrow> nat \<Rightarrow> nat \<Rightarrow> u8" where
  "chromaUAt src ro go bo p =
     ucast (rgb_U (ucast (src ! (p + ro))) (ucast (src ! (p + go))) (ucast (src ! (p + bo))))"

definition chromaVAt :: "u8 list \<Rightarrow> nat \<Rightarrow> nat \<Rightarrow> nat \<Rightarrow> nat \<Rightarrow> u8" where
  "chromaVAt src ro go bo p =
     ucast (rgb_V (ucast (src ! (p + ro))) (ucast (src ! (p + go))) (ucast (src ! (p + bo))))"

definition row_post ::
  "u8 list \<Rightarrow> nat \<Rightarrow> nat \<Rightarrow> nat \<Rightarrow> nat \<Rightarrow> nat \<Rightarrow> nat \<Rightarrow> nat \<Rightarrow> nat \<Rightarrow> nat \<Rightarrow> nat \<Rightarrow>
   u8 list \<Rightarrow> u8 list \<Rightarrow> bool" where
  "row_post src ro go bo W y x0 base dY dU dV dst dst' \<longleftrightarrow>
     length dst' = length dst \<and>
     (\<forall>x. x0 \<le> x \<and> x < W \<longrightarrow> dst' ! (dY + x) = lumaAt src ro go bo (base + 4 * x)) \<and>
     (\<forall>c. even y \<and> (x0 + 1) div 2 \<le> c \<and> c < W div 2 \<longrightarrow>
          dst' ! (dU + c) = chromaUAt src ro go bo (base + 8 * c) \<and>
          dst' ! (dV + c) = chromaVAt src ro go bo (base + 8 * c)) \<and>
     (\<forall>i. i < length dst \<and> \<not> (dY + x0 \<le> i \<and> i < dY + W)
          \<and> \<not> (even y \<and> dU + (x0 + 1) div 2 \<le> i \<and> i < dU + W div 2)
          \<and> \<not> (even y \<and> dV + (x0 + 1) div 2 \<le> i \<and> i < dV + W div 2)
          \<longrightarrow> dst' ! i = dst ! i)"

definition rows_post ::
  "u8 list \<Rightarrow> nat \<Rightarrow> nat \<Rightarrow> nat \<Rightarrow> nat \<Rightarrow> nat \<Rightarrow> nat \<Rightarrow> nat \<Rightarrow> nat \<Rightarrow> nat \<Rightarrow> nat \<Rightarrow>
   u8 list \<Rightarrow> u8 list \<Rightarrow> bool" where
  "rows_post src ro go bo W H ss ds Uoff Voff y0 dst dst' \<longleftrightarrow>
     length dst' = length dst \<and>
     (\<forall>y x. y0 \<le> y \<and> y < H \<and> x < W \<longrightarrow>
          dst' ! (y * ds + x) = lumaAt src ro go bo (y * ss + 4 * x)) \<and>
     (\<forall>r c. (y0 + 1) div 2 \<le> r \<and> r < H div 2 \<and> c < W div 2 \<longrightarrow>
          dst' ! (Uoff + r * (ds div 2) + c) = chromaUAt src ro go bo (2 * r * ss + 8 * c) \<and>
          dst' ! (Voff + r * (ds div 2) + c) = chromaVAt src ro go bo (2 * r * ss + 8 * c)) \<and>
     (\<forall>i. i < length dst
          \<and> (\<forall>y x. y0 \<le> y \<and> y < H \<and> x < W \<longrightarrow> i \<noteq> y * ds + x)
          \<and> (\<forall>r c. (y0 + 1) div 2 \<le> r \<and> r < H div 2 \<and> c < W div 2 \<longrightarrow>
                 i \<noteq> Uoff + r * (ds div 2) + c \<and> i \<noteq> Voff + r * (ds div 2) + c)
          \<longrightarrow> dst' ! i = dst ! i)"

section \<open>Example instances\<close>

text \<open>
  An AVC encoder instance on an LP64 target, 176 by 144, after \<open>initPorts\<close>; a base class
  that accepts every request; and requests used to exercise the theorems below.
\<close>

definition sz64 :: metadata_sizes where
  "sz64 = \<lparr>sizeof_VideoNativeMetadata = 24, sizeof_VideoGrallocMetadata = 16\<rparr>"

definition exampleComponent :: component where
  "exampleComponent =
     the (initPorts sz64 (SoftVideoEncoderOMXComponent ''mesa'' ''video_encoder.avc'' (OMX_VIDEO_Coding 7) [] 176 144)
        4 4 31584 ''video/avc'' 2)"

definition exampleBase :: "component \<Rightarrow> omx_param \<Rightarrow> (OMX_ERRORTYPE \<times> component) option" where
  "exampleBase s p = Some (OMX_ErrorNone, s)"


definition exampleComponent640 :: component where
  "exampleComponent640 =
     exampleComponent\<lparr>mWidth := 640, mHeight := 480,
         inDef := (inDef exampleComponent)\<lparr>nBufferSize := 460800,
            video := (video (inDef exampleComponent))\<lparr>nFrameWidth := 640, nFrameHeight := 480,
               nStride := 640, nSliceHeight := 480\<rparr>\<rparr>,
         outDef := (outDef exampleComponent)\<lparr>nBufferSize := 230400,
            video := (video (outDef exampleComponent))\<lparr>nFrameWidth := 640, nFrameHeight := 480\<rparr>\<rparr>\<rparr>"

definition exampleBadOutputPort :: OMX_PARAM_PORTDEFINITIONTYPE where
  "exampleBadOutputPort =
     (outDef exampleComponent)\<lparr>video := (video (outDef exampleComponent))\<lparr>eCompressionFormat := OMX_VIDEO_Coding 4\<rparr>\<rparr>"

definition exampleBaseGetDef ::
  "component \<Rightarrow> OMX_PARAM_PORTDEFINITIONTYPE \<Rightarrow>
      (OMX_ERRORTYPE \<times> OMX_PARAM_PORTDEFINITIONTYPE \<times> component) option" where
  "exampleBaseGetDef s def =
     Some (OMX_ErrorNone, if nPortIndex def = kInputPortIndex then inDef s else outDef s, s)"

definition exampleBaseGet ::
  "component \<Rightarrow> omx_param \<Rightarrow> (OMX_ERRORTYPE \<times> omx_param \<times> component) option" where
  "exampleBaseGet s p = Some (OMX_ErrorUnsupportedIndex, p, s)"

definition exampleMetaOn :: StoreMetaDataInBuffersParams where
  "exampleMetaOn = \<lparr>smd_validOMXParam = True, smd_nPortIndex = kInputPortIndex,
                     bStoreMetaData = OMX_TRUE\<rparr>"

definition exampleComponentMeta :: component where
  "exampleComponentMeta =
     exampleComponent\<lparr>mInputDataIsMeta := True, mColorFormat := OMX_COLOR_FormatAndroidOpaque,
        inDef := (inDef exampleComponent)\<lparr>nBufferSize := 24,
           video := (video (inDef exampleComponent))\<lparr>eColorFormat := OMX_COLOR_FormatAndroidOpaque\<rparr>\<rparr>\<rparr>"

definition exampleMetaOff :: StoreMetaDataInBuffersParams where
  "exampleMetaOff = \<lparr>smd_validOMXParam = True, smd_nPortIndex = kInputPortIndex,
                      bStoreMetaData = OMX_FALSE\<rparr>"

definition exampleOutputMetaOn :: StoreMetaDataInBuffersParams where
  "exampleOutputMetaOn = \<lparr>smd_validOMXParam = True, smd_nPortIndex = kOutputPortIndex,
                           bStoreMetaData = OMX_TRUE\<rparr>"

definition exampleOutputMetaOff :: StoreMetaDataInBuffersParams where
  "exampleOutputMetaOff = \<lparr>smd_validOMXParam = True, smd_nPortIndex = kOutputPortIndex,
                            bStoreMetaData = OMX_FALSE\<rparr>"

definition exampleBadInputPort :: OMX_PARAM_PORTDEFINITIONTYPE where
  "exampleBadInputPort =
     (inDef exampleComponent)\<lparr>video := (video (inDef exampleComponent))
        \<lparr>nFrameWidth := 320, nFrameHeight := 240, xFramerate := 983040,
         eColorFormat := OMX_COLOR_FormatOther 6\<rparr>\<rparr>"

text \<open>
  A platform whose fence never signals within the timeout and one whose fence signals;
  both map the handle 7 to a 2 by 2 RGBA image.
\<close>

definition exampleImage :: "u8 list" where
  "exampleImage = [255, 0, 0, 255, 0, 255, 0, 255, 0, 0, 255, 255, 255, 255, 255, 255]"

definition examplePlatform :: "bool \<Rightarrow> platform" where
  "examplePlatform signalled =
     \<lparr>fence_wait = (\<lambda>fd. signalled),
      mapper_lock = (\<lambda>h. if h = 7 then Some exampleImage else None),
      mapper_lockYCbCr = (\<lambda>h. None),
      gl_readPixels = (\<lambda>m w h. [])\<rparr>"

definition exampleMetadata :: metadata where
  "exampleMetadata =
     VideoNativeMetadata
       \<lparr>anb_handle = 7, anb_format = HAL_PIXEL_FORMAT_RGBA_8888, anb_stride = 2,
        anb_height = 2\<rparr> 5"







section \<open>Properties of port negotiation\<close>

lemma exampleComponent_eq:
  "exampleComponent =
     \<lparr>mInputDataIsMeta = False, mWidth = 176, mHeight = 144, mBitrate = 192000,
      mFramerate = 1966080, mColorFormat = OMX_COLOR_FormatYUV420Planar,
      mMinOutputBufferSize = 31584, mMinCompressionRatio = 2,
      mComponentRole = ''video_encoder.avc'', mCodingType = OMX_VIDEO_Coding 7,
      mProfileLevels = [], mIsPowervr = False, mEglDisplay = False, mShmData = None,
      inDef = \<lparr>validOMXParam = True, nPortIndex = 0, eDir = OMX_DirInput,
               nBufferCountActual = 4, nBufferCountMin = 4, nBufferSize = 38016,
               bEnabled = OMX_TRUE, bPopulated = OMX_FALSE, bBuffersContiguous = OMX_FALSE,
               nBufferAlignment = 1,
               video = \<lparr>cMIMEType = ''video/raw'', nFrameWidth = 176, nFrameHeight = 144,
                        nStride = 176, nSliceHeight = 144, nBitrate = 0, xFramerate = 1966080,
                        bFlagErrorConcealment = OMX_FALSE,
                        eCompressionFormat = OMX_VIDEO_CodingUnused,
                        eColorFormat = OMX_COLOR_FormatYUV420Planar\<rparr>\<rparr>,
      outDef = \<lparr>validOMXParam = True, nPortIndex = 1, eDir = OMX_DirOutput,
               nBufferCountActual = 4, nBufferCountMin = 4, nBufferSize = 31584,
               bEnabled = OMX_TRUE, bPopulated = OMX_FALSE, bBuffersContiguous = OMX_FALSE,
               nBufferAlignment = 2,
               video = \<lparr>cMIMEType = ''video/avc'', nFrameWidth = 176, nFrameHeight = 144,
                        nStride = 0, nSliceHeight = 0, nBitrate = 192000, xFramerate = 0,
                        bFlagErrorConcealment = OMX_FALSE,
                        eCompressionFormat = OMX_VIDEO_Coding 7,
                        eColorFormat = OMX_COLOR_FormatUnused\<rparr>\<rparr>\<rparr>"
  by (simp add: exampleComponent_def initPorts_def SoftVideoEncoderOMXComponent_def sz64_def
        updatePortParams_def updateInDef_def rawBufferSize_def blankPort_def Let_def
        kInputPortIndex_def kOutputPortIndex_def kInputBufferAlignment_def
        kOutputBufferAlignment_def)

text \<open>
  When the product fits \<open>uint32_t\<close>, the wrapping expression of \<open>updatePortParams\<close> is
  the formula over the natural numbers.
\<close>

lemma raw_size_nat:
  fixes w h m r :: u32
  assumes a: "unat w * unat h * 3 < 2 ^ 32"
  shows "unat (max m (((w * h * 3) div 2) div r)) =
           max (unat m) ((unat w * unat h * 3 div 2) div unat r)"
proof -
  have wh: "unat w * unat h < 2 ^ 32"
    using a by simp
  have "unat (w * h) = unat w * unat h"
    using wh by (simp add: unat_word_ariths)
  then have "unat (w * h * 3) = unat w * unat h * 3"
    using a by (simp add: unat_word_ariths)
  then show ?thesis
    by (simp add: max_def word_le_nat_alt unat_div)
qed

text \<open>
  \<open>updatePortParams\<close> copies the stored geometry into both ports, keeps the policy
  values and sets the buffer size of the output port from them.
\<close>

lemma updatePortParams_fields:
  assumes "updatePortParams sz t = Some s'"
  shows "mWidth s' = mWidth t" "mHeight s' = mHeight t"
    "nFrameWidth (video (inDef s')) = mWidth t" "nFrameHeight (video (inDef s')) = mHeight t"
    "nStride (video (inDef s')) = mWidth t" "nSliceHeight (video (inDef s')) = mHeight t"
    "nFrameWidth (video (outDef s')) = mWidth t" "nFrameHeight (video (outDef s')) = mHeight t"
    "mMinOutputBufferSize s' = mMinOutputBufferSize t"
    "mMinCompressionRatio s' = mMinCompressionRatio t"
    "mMinCompressionRatio t \<noteq> 0"
    "nBufferSize (outDef s') =
       max (mMinOutputBufferSize t) (((mWidth t * mHeight t * 3) div 2) div mMinCompressionRatio t)"
  using assms
  by (auto simp: updatePortParams_def updateInDef_def rawBufferSize_def Let_def split: if_splits)

lemma updatePortParams_recomputed:
  assumes "updatePortParams sz t = Some s'"
  shows "outputBufferSizeRecomputed t (mWidth t) (mHeight t) s'"
  unfolding outputBufferSizeRecomputed_def specOutputBufferSize_def
  using updatePortParams_fields[OF assms] by (simp add: raw_size_nat)





text \<open>
  The policy values are set by \<open>initPorts\<close>, which also sets the buffer size of the
  output port from them, and no request handled by the component changes them, whatever
  it returns.
\<close>

lemma initPorts_policy:
  assumes "initPorts sz s numInputBuffers numOutputBuffers outputBufferSize mime
             minCompressionRatio = Some s'"
  shows "mMinOutputBufferSize s' = outputBufferSize"
    and "mMinCompressionRatio s' = minCompressionRatio"
    and "outputBufferSizeRecomputed s' (mWidth s) (mHeight s) s'"
proof -
  have "\<exists>t. updatePortParams sz t = Some s'
          \<and> mMinOutputBufferSize t = outputBufferSize
          \<and> mMinCompressionRatio t = minCompressionRatio
          \<and> mWidth t = mWidth s \<and> mHeight t = mHeight s"
    using assms unfolding initPorts_def Let_def
    apply (intro exI conjI)
        apply assumption
       apply simp_all
    done
  then obtain t where t: "updatePortParams sz t = Some s'"
      "mMinOutputBufferSize t = outputBufferSize" "mMinCompressionRatio t = minCompressionRatio"
      "mWidth t = mWidth s" "mHeight t = mHeight s"
    by blast
  note f = updatePortParams_fields[OF t(1)]
  show "mMinOutputBufferSize s' = outputBufferSize"
    using f(9) t(2) by simp
  show "mMinCompressionRatio s' = minCompressionRatio"
    using f(10) t(3) by simp
  have "outputBufferSizeRecomputed t (mWidth s) (mHeight s) s'"
    using updatePortParams_recomputed[OF t(1)] t(4,5) by simp
  then show "outputBufferSizeRecomputed s' (mWidth s) (mHeight s) s'"
    using f(9,10) by (simp add: outputBufferSizeRecomputed_def)
qed

lemma updatePortParams_policy:
  "updatePortParams sz t = Some s' \<Longrightarrow>
     mMinOutputBufferSize s' = mMinOutputBufferSize t
     \<and> mMinCompressionRatio s' = mMinCompressionRatio t"
  by (simp add: updatePortParams_fields)

lemma internalSetPortParams_policy:
  assumes "internalSetPortParams sz s port = Some (err, s')"
  shows "mMinOutputBufferSize s' = mMinOutputBufferSize s
       \<and> mMinCompressionRatio s' = mMinCompressionRatio s"
  using assms unfolding internalSetPortParams_def Let_def
  by (auto split: if_splits dest!: updatePortParams_policy)

lemma setVideoPortFormat_policy:
  assumes "internalSetParameter base sz s (OMX_IndexParamVideoPortFormat format) = Some (err, s')"
  shows "mMinOutputBufferSize s' = mMinOutputBufferSize s
       \<and> mMinCompressionRatio s' = mMinCompressionRatio s"
  using assms by (auto split: if_splits dest!: updatePortParams_policy)

lemma setStoreMetaData_policy:
  assumes "internalSetParameter base sz s (kStoreMetaDataExtensionIndex storeParam)
             = Some (err, s')"
  shows "mMinOutputBufferSize s' = mMinOutputBufferSize s
       \<and> mMinCompressionRatio s' = mMinCompressionRatio s"
  using assms unfolding internalSetParameter.simps Let_def
  by (auto split: if_splits dest!: updatePortParams_policy)







lemma exampleMetaOn_set:
  "internalSetParameter exampleBase sz64 exampleComponent (kStoreMetaDataExtensionIndex exampleMetaOn)
     = Some (OMX_ErrorNone, exampleComponentMeta)"
  by (simp add: exampleMetaOn_def exampleComponentMeta_def exampleComponent_eq Let_def
      kInputPortIndex_def kOutputPortIndex_def updatePortParams_def updateInDef_def
      rawBufferSize_def metadataSize_def sz64_def)


text \<open>
  Claim C2. From the colour format PlanarYUV420 or SemiPlanarYUV420, a store-metadata
  request that enables metadata mode on the input port sets the input colour format to
  OpaqueHandle, and a following request that disables it sets the format to PlanarYUV420;
  a disabling request in a state whose format is not OpaqueHandle leaves the format as it
  is. The requests carry a valid parameter header and the compression ratio is not zero,
  as the data model requires.
\<close>

theorem metadata_mode_toggle_color_format:
  assumes ratio: "mMinCompressionRatio s \<noteq> 0"
    and on: "smd_validOMXParam on" "smd_nPortIndex on = kInputPortIndex"
            "bStoreMetaData on = OMX_TRUE"
    and off: "smd_validOMXParam off" "smd_nPortIndex off = kInputPortIndex"
             "bStoreMetaData off = OMX_FALSE"
  shows "(mColorFormat s = OMX_COLOR_FormatYUV420Planar
            \<or> mColorFormat s = OMX_COLOR_FormatYUV420SemiPlanar \<longrightarrow>
          (\<exists>s1 s2.
              internalSetParameter base sz s (kStoreMetaDataExtensionIndex on)
                = Some (OMX_ErrorNone, s1)
            \<and> mColorFormat s1 = OMX_COLOR_FormatAndroidOpaque
            \<and> eColorFormat (video (inDef s1)) = OMX_COLOR_FormatAndroidOpaque
            \<and> internalSetParameter base sz s1 (kStoreMetaDataExtensionIndex off)
                = Some (OMX_ErrorNone, s2)
            \<and> mColorFormat s2 = OMX_COLOR_FormatYUV420Planar
            \<and> eColorFormat (video (inDef s2)) = OMX_COLOR_FormatYUV420Planar))
       \<and> (mColorFormat s \<noteq> OMX_COLOR_FormatAndroidOpaque \<longrightarrow>
          (\<exists>s3.
              internalSetParameter base sz s (kStoreMetaDataExtensionIndex off)
                = Some (OMX_ErrorNone, s3)
            \<and> mColorFormat s3 = mColorFormat s
            \<and> eColorFormat (video (inDef s3)) = mColorFormat s))"
  using assms
  by (auto simp: kInputPortIndex_def kOutputPortIndex_def updatePortParams_def
        updateInDef_def Let_def)

theorem metadata_mode_toggle_color_format_witness:
  "(\<exists>s1 s2.
       internalSetParameter exampleBase sz64 exampleComponent
         (kStoreMetaDataExtensionIndex exampleMetaOn) = Some (OMX_ErrorNone, s1)
     \<and> mColorFormat s1 = OMX_COLOR_FormatAndroidOpaque
     \<and> eColorFormat (video (inDef s1)) = OMX_COLOR_FormatAndroidOpaque
     \<and> internalSetParameter exampleBase sz64 s1
         (kStoreMetaDataExtensionIndex exampleMetaOff) = Some (OMX_ErrorNone, s2)
     \<and> mColorFormat s2 = OMX_COLOR_FormatYUV420Planar
     \<and> eColorFormat (video (inDef s2)) = OMX_COLOR_FormatYUV420Planar)
   \<and> (\<exists>s3.
       internalSetParameter exampleBase sz64 exampleComponent
         (kStoreMetaDataExtensionIndex exampleMetaOff) = Some (OMX_ErrorNone, s3)
     \<and> mColorFormat s3 = mColorFormat exampleComponent
     \<and> eColorFormat (video (inDef s3)) = mColorFormat exampleComponent)"
proof -
  have r: "mMinCompressionRatio exampleComponent \<noteq> 0"
    by (simp add: exampleComponent_eq)
  have f: "mColorFormat exampleComponent = OMX_COLOR_FormatYUV420Planar"
    by (simp add: exampleComponent_eq)
  have on: "smd_validOMXParam exampleMetaOn" "smd_nPortIndex exampleMetaOn = kInputPortIndex"
       "bStoreMetaData exampleMetaOn = OMX_TRUE"
    by (simp_all add: exampleMetaOn_def)
  have off: "smd_validOMXParam exampleMetaOff"
       "smd_nPortIndex exampleMetaOff = kInputPortIndex"
       "bStoreMetaData exampleMetaOff = OMX_FALSE"
    by (simp_all add: exampleMetaOff_def)
  from metadata_mode_toggle_color_format[OF r on off, of exampleBase sz64] f
  show ?thesis by simp
qed

text \<open>
  Claim C7. A port definition for the output port, with a valid parameter header, whose
  compression format is not the coding type of the instance or whose colour format is
  not Unused is rejected with \<open>OMX_ErrorUnsupportedSetting\<close>, by \<open>internalSetPortParams\<close>
  and by \<open>internalSetParameter\<close> alike, and the component after the call is the component
  before it: bit rate, geometry, colour format and both port definitions are untouched.
\<close>

theorem output_port_rejection_no_mutation:
  assumes "validOMXParam port" "nPortIndex port = kOutputPortIndex"
    and "eCompressionFormat (video port) \<noteq> mCodingType s
         \<or> eColorFormat (video port) \<noteq> OMX_COLOR_FormatUnused"
  shows "internalSetPortParams sz s port = Some (OMX_ErrorUnsupportedSetting, s)
       \<and> internalSetParameter base sz s (OMX_IndexParamPortDefinition port)
           = Some (OMX_ErrorUnsupportedSetting, s)"
  using assms by (simp add: internalSetPortParams_def kInputPortIndex_def kOutputPortIndex_def)

theorem output_port_rejection_no_mutation_witness:
  "internalSetPortParams sz64 exampleComponent exampleBadOutputPort
     = Some (OMX_ErrorUnsupportedSetting, exampleComponent)
   \<and> internalSetParameter exampleBase sz64 exampleComponent
       (OMX_IndexParamPortDefinition exampleBadOutputPort)
     = Some (OMX_ErrorUnsupportedSetting, exampleComponent)"
  by (rule output_port_rejection_no_mutation)
     (simp_all add: exampleBadOutputPort_def exampleComponent_eq kOutputPortIndex_def)

text \<open>
  Claim C8, as stated, fails: a store-metadata request on the output port that asks to
  disable metadata storage is accepted.
\<close>

theorem store_metadata_output_disable_accepted:
  "internalSetParameter exampleBase sz64 exampleComponent
     (kStoreMetaDataExtensionIndex exampleOutputMetaOff) = Some (OMX_ErrorNone, exampleComponent)"
  by (simp add: exampleOutputMetaOff_def)

text \<open>
  Claim C8, amended. A store-metadata request on the output port is rejected with
  \<open>OMX_ErrorUnsupportedSetting\<close> when it asks to enable metadata storage (and with
  \<open>OMX_ErrorBadParameter\<close> when its header is invalid); a request with a valid header
  that asks to disable it returns \<open>OMX_ErrorNone\<close>. The component is unchanged in every
  case.
\<close>

theorem store_metadata_output_port:
  assumes "smd_nPortIndex storeParam = kOutputPortIndex"
  shows "internalSetParameter base sz s (kStoreMetaDataExtensionIndex storeParam) =
     Some (if \<not> smd_validOMXParam storeParam then OMX_ErrorBadParameter
           else if truthy (bStoreMetaData storeParam) then OMX_ErrorUnsupportedSetting
           else OMX_ErrorNone, s)"
  using assms by simp

theorem store_metadata_output_port_witness:
  "internalSetParameter exampleBase sz64 exampleComponent
     (kStoreMetaDataExtensionIndex exampleOutputMetaOn)
     = Some (OMX_ErrorUnsupportedSetting, exampleComponent)"
proof -
  have p: "smd_nPortIndex exampleOutputMetaOn = kOutputPortIndex"
    by (simp add: exampleOutputMetaOn_def)
  from store_metadata_output_port[OF p, of exampleBase sz64 exampleComponent]
  show ?thesis by (simp add: exampleOutputMetaOn_def)
qed

text \<open>
  Claim C10. A port definition for the input port, with a valid parameter header, that is
  rejected for its compression or colour format returns \<open>OMX_ErrorUnsupportedSetting\<close>
  after the stored width, height and frame rate have been overwritten with the proposed
  values; neither port definition (and so neither buffer size) is recomputed, and the
  colour format and bit rate are kept.
\<close>

theorem input_port_rejection_mutates_geometry:
  assumes "validOMXParam port" "nPortIndex port = kInputPortIndex"
    and "eCompressionFormat (video port) \<noteq> OMX_VIDEO_CodingUnused
         \<or> (eColorFormat (video port) \<noteq> OMX_COLOR_FormatYUV420Planar
            \<and> eColorFormat (video port) \<noteq> OMX_COLOR_FormatYUV420SemiPlanar
            \<and> eColorFormat (video port) \<noteq> OMX_COLOR_FormatAndroidOpaque)"
  shows "\<exists>s'. internalSetPortParams sz s port = Some (OMX_ErrorUnsupportedSetting, s')
       \<and> mWidth s' = nFrameWidth (video port)
       \<and> mHeight s' = nFrameHeight (video port)
       \<and> mFramerate s' = xFramerate (video port)
       \<and> inDef s' = inDef s \<and> outDef s' = outDef s
       \<and> mColorFormat s' = mColorFormat s \<and> mBitrate s' = mBitrate s"
  using assms by (auto simp add: internalSetPortParams_def Let_def)

theorem input_port_rejection_mutates_geometry_witness:
  "\<exists>s'. internalSetPortParams sz64 exampleComponent exampleBadInputPort
           = Some (OMX_ErrorUnsupportedSetting, s')
       \<and> mWidth s' = 320 \<and> mHeight s' = 240 \<and> mFramerate s' = 983040
       \<and> nFrameWidth (video (inDef s')) = 176 \<and> nFrameHeight (video (inDef s')) = 144
       \<and> nBufferSize (inDef s') = 38016 \<and> nBufferSize (outDef s') = 31584"
proof -
  have v: "validOMXParam exampleBadInputPort" "nPortIndex exampleBadInputPort = kInputPortIndex"
    by (simp_all add: exampleBadInputPort_def exampleComponent_eq kInputPortIndex_def)
  have c: "eCompressionFormat (video exampleBadInputPort) \<noteq> OMX_VIDEO_CodingUnused
         \<or> (eColorFormat (video exampleBadInputPort) \<noteq> OMX_COLOR_FormatYUV420Planar
            \<and> eColorFormat (video exampleBadInputPort) \<noteq> OMX_COLOR_FormatYUV420SemiPlanar
            \<and> eColorFormat (video exampleBadInputPort) \<noteq> OMX_COLOR_FormatAndroidOpaque)"
    by (simp add: exampleBadInputPort_def)
  from input_port_rejection_mutates_geometry[OF v c, of sz64 exampleComponent]
  obtain s' where s': "internalSetPortParams sz64 exampleComponent exampleBadInputPort
           = Some (OMX_ErrorUnsupportedSetting, s')"
     "mWidth s' = nFrameWidth (video exampleBadInputPort)"
     "mHeight s' = nFrameHeight (video exampleBadInputPort)"
     "mFramerate s' = xFramerate (video exampleBadInputPort)"
     "inDef s' = inDef exampleComponent" "outDef s' = outDef exampleComponent"
    by blast
  have g: "mWidth s' = 320" "mHeight s' = 240" "mFramerate s' = 983040"
    "nFrameWidth (video (inDef s')) = 176" "nFrameHeight (video (inDef s')) = 144"
    "nBufferSize (inDef s') = 38016" "nBufferSize (outDef s') = 31584"
    by (simp_all add: s'(2-6) exampleBadInputPort_def exampleComponent_eq)
  from s'(1) g show ?thesis by blast
qed

section \<open>Properties of input buffer validation\<close>

lemma validate_cases:
  "fst (validateInputBuffer sz s L) = OMX_ErrorUndefined \<longleftrightarrow> (ucast L :: size_t) < frameSize sz s"
  "fst (validateInputBuffer sz s L) = OMX_ErrorNone \<longleftrightarrow> frameSize sz s \<le> (ucast L :: size_t)"
  "snd (validateInputBuffer sz s L) \<longleftrightarrow> frameSize sz s < (ucast L :: size_t)"
  by (auto simp: validateInputBuffer_def)

lemma s32_mul3_div2:
  fixes w h :: s32
  assumes "0 \<le> sint w" "0 \<le> sint h" "sint w * sint h * 3 < 2 ^ 31"
  shows "sint (s32_div (w * h * 3) 2) = sint w * sint h * 3 div 2"
proof -
  let ?P = "sint w * sint h * 3"
  have nonneg: "0 \<le> ?P" using assms by simp
  have wh: "sint w * sint h < 2 ^ 31" "0 \<le> sint w * sint h"
    using assms nonneg by auto
  have stb: "signed_take_bit 31 k = k" if "0 \<le> k" "k < 2 ^ 31" for k :: int
    using that by (intro signed_take_bit_int_eq_self) auto
  have "sint (w * h) = sint w * sint h"
    using wh by (simp add: sint_word_ariths stb)
  then have "sint (w * h * 3) = ?P"
    using assms(3) nonneg by (simp add: sint_word_ariths stb)
  moreover have "?P sdiv 2 = ?P div 2"
    using nonneg by (simp add: signed_divide_int_def sgn_if)
  moreover have "0 \<le> ?P div 2" "?P div 2 < 2 ^ 31"
    using nonneg assms by auto
  ultimately show ?thesis
    by (simp add: s32_div_def signed_of_int stb)
qed

lemma frameSize_raw:
  assumes "\<not> mInputDataIsMeta s" "0 \<le> sint (mWidth s)" "0 \<le> sint (mHeight s)"
     "sint (mWidth s) * sint (mHeight s) * 3 < 2 ^ 31"
  shows "uint (frameSize sz s) = sint (mWidth s) * sint (mHeight s) * 3 div 2"
proof -
  let ?P = "sint (mWidth s) * sint (mHeight s) * 3"
  have e: "sint (s32_div (mWidth s * mHeight s * 3) 2) = ?P div 2"
    using assms by (intro s32_mul3_div2) auto
  have nn: "0 \<le> ?P" using assms by simp
  have b: "0 \<le> ?P div 2" "?P div 2 < 2 ^ 64"
    using nn assms(4) by auto
  have "frameSize sz s = word_of_int (?P div 2)"
    using assms(1) e by (simp add: frameSize_def scast_eq)
  then show ?thesis
    using b by (simp add: uint_word_of_int take_bit_int_eq_self)
qed

lemma frameSize_expectedLength:
  assumes "mInputDataIsMeta s \<or>
     (0 \<le> sint (mWidth s) \<and> 0 \<le> sint (mHeight s) \<and> sint (mWidth s) * sint (mHeight s) * 3 < 2 ^ 31)"
  shows "uint (frameSize sz s) = expectedLength sz s"
proof (cases "mInputDataIsMeta s")
  case True
  then show ?thesis
    by (simp add: frameSize_def expectedLength_def metadataSize_def max_def word_le_def)
next
  case False
  with assms frameSize_raw[of s sz] show ?thesis
    by (simp add: expectedLength_def)
qed

text \<open>
  Claim C3. For a buffer of length \<open>L\<close>, \<open>validateInputBuffer\<close> returns the size error
  \<open>OMX_ErrorUndefined\<close> exactly when \<open>L\<close> is below the expected length, and
  \<open>OMX_ErrorNone\<close> otherwise; a longer buffer is only logged. The expected length is the
  larger metadata structure in metadata mode and \<open>width * height * 3 / 2\<close> otherwise, for
  a geometry that is not negative and whose product fits \<open>int32_t\<close>. For 640 by 480,
  PlanarYUV420, metadata mode off, the expected length is 460800 and the length 460799
  is rejected.
\<close>

theorem validateInputBuffer_size_check:
  "((mInputDataIsMeta s \<or>
      (0 \<le> sint (mWidth s) \<and> 0 \<le> sint (mHeight s) \<and> sint (mWidth s) * sint (mHeight s) * 3 < 2 ^ 31)) \<longrightarrow>
     (fst (validateInputBuffer sz s L) = OMX_ErrorUndefined \<longleftrightarrow> uint L < expectedLength sz s) \<and>
     (fst (validateInputBuffer sz s L) = OMX_ErrorNone \<longleftrightarrow> expectedLength sz s \<le> uint L) \<and>
     (snd (validateInputBuffer sz s L) \<longleftrightarrow> expectedLength sz s < uint L)) \<and>
   expectedLength sz (s\<lparr>mInputDataIsMeta := False, mWidth := 640, mHeight := 480,
                        mColorFormat := OMX_COLOR_FormatYUV420Planar\<rparr>) = 460800 \<and>
   validateInputBuffer sz (s\<lparr>mInputDataIsMeta := False, mWidth := 640, mHeight := 480,
                        mColorFormat := OMX_COLOR_FormatYUV420Planar\<rparr>) 460799 = (OMX_ErrorUndefined, False)"
proof (intro conjI impI)
  assume a: "mInputDataIsMeta s \<or>
      (0 \<le> sint (mWidth s) \<and> 0 \<le> sint (mHeight s) \<and> sint (mWidth s) * sint (mHeight s) * 3 < 2 ^ 31)"
  have e: "uint (frameSize sz s) = expectedLength sz s"
    using a by (rule frameSize_expectedLength)
  have u: "uint (ucast L :: size_t) = uint L"
    by (simp add: uint_up_ucast is_up)
  show "fst (validateInputBuffer sz s L) = OMX_ErrorUndefined \<longleftrightarrow> uint L < expectedLength sz s"
    using e u by (simp add: validate_cases word_less_def)
  show "fst (validateInputBuffer sz s L) = OMX_ErrorNone \<longleftrightarrow> expectedLength sz s \<le> uint L"
    using e u by (simp add: validate_cases word_le_def)
  show "snd (validateInputBuffer sz s L) \<longleftrightarrow> expectedLength sz s < uint L"
    using e u by (simp add: validate_cases word_less_def)
next
  show "expectedLength sz (s\<lparr>mInputDataIsMeta := False, mWidth := 640, mHeight := 480,
                        mColorFormat := OMX_COLOR_FormatYUV420Planar\<rparr>) = 460800"
    by (simp add: expectedLength_def)
  show "validateInputBuffer sz (s\<lparr>mInputDataIsMeta := False, mWidth := 640, mHeight := 480,
                        mColorFormat := OMX_COLOR_FormatYUV420Planar\<rparr>) 460799 = (OMX_ErrorUndefined, False)"
    by (simp add: validateInputBuffer_def frameSize_def s32_div_def)
qed

theorem validateInputBuffer_size_check_witness:
  "fst (validateInputBuffer sz64 exampleComponent640 460799) = OMX_ErrorUndefined \<and>
   fst (validateInputBuffer sz64 exampleComponent640 460800) = OMX_ErrorNone \<and>
   validateInputBuffer sz64 exampleComponent640 460801 = (OMX_ErrorNone, True) \<and>
   expectedLength sz64 exampleComponent640 = 460800"
proof -
  have g: "mInputDataIsMeta exampleComponent640 \<or>
      (0 \<le> sint (mWidth exampleComponent640) \<and> 0 \<le> sint (mHeight exampleComponent640) \<and>
       sint (mWidth exampleComponent640) * sint (mHeight exampleComponent640) * 3 < 2 ^ 31)"
    by (simp add: exampleComponent640_def)
  have x: "expectedLength sz64 exampleComponent640 = 460800"
    by (simp add: expectedLength_def exampleComponent640_def exampleComponent_eq)
  from conjunct1[OF validateInputBuffer_size_check, rule_format, OF g, of sz64 460799]
       conjunct1[OF validateInputBuffer_size_check, rule_format, OF g, of sz64 460800]
       conjunct1[OF validateInputBuffer_size_check, rule_format, OF g, of sz64 460801] x
  show ?thesis
    by (simp add: prod_eq_iff)
qed

section \<open>Properties of parameter queries\<close>

text \<open>
  The port-definition query where its \<open>CHECK\<close> passes. For a port index in
  \<open>{Input, Output}\<close> and a base class that answers without error and without changing
  the component, the query returns \<open>OMX_ErrorNone\<close> and leaves the component unchanged
  whenever \<open>ro.hardware.egl\<close> is mesa, powervr or emulation, or the colour format is
  PlanarYUV420 or SemiPlanarYUV420; the definition returned is the stored one with the
  frame size set to the stored geometry and the buffer size set to
  \<open>mWidth * mHeight * 3 / 2\<close> (the \<open>int32_t\<close> product wraps in the model). In every
  other case the \<open>CHECK\<close> fails.
\<close>

lemma port_definition_query:
  assumes port: "nPortIndex request = kInputPortIndex \<or> nPortIndex request = kOutputPortIndex"
    and base: "baseDef s request = Some (OMX_ErrorNone, stored, s)"
  shows "internalGetParameter baseDef base egl s (OMX_IndexParamPortDefinition request) =
           (if egl = ''mesa'' \<or> egl = ''powervr'' \<or> egl = ''emulation''
               \<or> mColorFormat s = OMX_COLOR_FormatYUV420Planar
               \<or> mColorFormat s = OMX_COLOR_FormatYUV420SemiPlanar
            then Some (OMX_ErrorNone,
                   OMX_IndexParamPortDefinition
                     (stored\<lparr>nBufferSize := s32_div (mWidth s * mHeight s * 3) 2,
                             video := (video stored)\<lparr>nFrameWidth := mWidth s,
                                                       nFrameHeight := mHeight s\<rparr>\<rparr>),
                   s)
            else None)"
  using assms by (auto simp: kInputPortIndex_def kOutputPortIndex_def Let_def)

lemma port_definition_query_example:
  "internalGetParameter exampleBaseGetDef exampleBaseGet ''default'' exampleComponent
     (OMX_IndexParamPortDefinition (outDef exampleComponent)) =
           Some (OMX_ErrorNone,
                 OMX_IndexParamPortDefinition
                   ((outDef exampleComponent)\<lparr>nBufferSize := 38016\<rparr>),
                 exampleComponent)"
proof -
  have a: "nPortIndex (outDef exampleComponent) = kInputPortIndex
           \<or> nPortIndex (outDef exampleComponent) = kOutputPortIndex"
    by (simp add: exampleComponent_eq kOutputPortIndex_def)
  have b: "exampleBaseGetDef exampleComponent (outDef exampleComponent)
             = Some (OMX_ErrorNone, outDef exampleComponent, exampleComponent)"
    by (simp add: exampleBaseGetDef_def exampleComponent_eq kInputPortIndex_def)
  show ?thesis
    using port_definition_query[where baseDef = exampleBaseGetDef and base = exampleBaseGet
        and s = exampleComponent and request = "outDef exampleComponent"
        and stored = "outDef exampleComponent" and egl = "''default''", OF a b]
    by (simp add: exampleComponent_eq s32_div_def)
qed

text \<open>
  Claim C9. The port-definition query does not change the component, but it does not
  always succeed. The component accepts the request that enables metadata mode, which
  makes the colour format OpaqueHandle; on a platform whose \<open>ro.hardware.egl\<close> is none
  of mesa, powervr and emulation the \<open>CHECK\<close> of the query for the input port then
  fails and the call does not return, while the same query on the same component is
  answered with \<open>OMX_ErrorNone\<close> when \<open>ro.hardware.egl\<close> is mesa.
\<close>

theorem port_definition_query_aborts:
  "internalSetParameter exampleBase sz64 exampleComponent (kStoreMetaDataExtensionIndex exampleMetaOn)
     = Some (OMX_ErrorNone, exampleComponentMeta) \<and>
   internalGetParameter exampleBaseGetDef exampleBaseGet ''default'' exampleComponentMeta
     (OMX_IndexParamPortDefinition (inDef exampleComponentMeta)) = None \<and>
   internalGetParameter exampleBaseGetDef exampleBaseGet ''mesa'' exampleComponentMeta
     (OMX_IndexParamPortDefinition (inDef exampleComponentMeta)) =
       Some (OMX_ErrorNone,
             OMX_IndexParamPortDefinition ((inDef exampleComponentMeta)\<lparr>nBufferSize := 38016\<rparr>),
             exampleComponentMeta)"
proof (intro conjI)
  show "internalSetParameter exampleBase sz64 exampleComponent
          (kStoreMetaDataExtensionIndex exampleMetaOn) = Some (OMX_ErrorNone, exampleComponentMeta)"
    by (rule exampleMetaOn_set)
  show "internalGetParameter exampleBaseGetDef exampleBaseGet ''default'' exampleComponentMeta
          (OMX_IndexParamPortDefinition (inDef exampleComponentMeta)) = None"
    by (simp add: exampleBaseGetDef_def exampleComponentMeta_def exampleComponent_eq
          kInputPortIndex_def)
  show "internalGetParameter exampleBaseGetDef exampleBaseGet ''mesa'' exampleComponentMeta
          (OMX_IndexParamPortDefinition (inDef exampleComponentMeta)) =
       Some (OMX_ErrorNone,
             OMX_IndexParamPortDefinition ((inDef exampleComponentMeta)\<lparr>nBufferSize := 38016\<rparr>),
             exampleComponentMeta)"
    by (simp add: exampleBaseGetDef_def exampleComponentMeta_def exampleComponent_eq
          kInputPortIndex_def s32_div_def)
qed

section \<open>Properties of the semiplanar conversion\<close>

lemma word_of_bytes_U:
  fixes b0 b1 b2 b3 :: u8
  defines "temp \<equiv> (ucast b0 OR push_bit 8 (ucast b1) OR push_bit 16 (ucast b2)
                    OR push_bit 24 (ucast b3) :: u32)"
  shows "(ucast (ucast ((temp AND 0xFF) OR (drop_bit 8 temp AND 0xFF00)) :: u16) :: u8) = b0"
    and "(ucast (drop_bit 8 (ucast ((temp AND 0xFF) OR (drop_bit 8 temp AND 0xFF00)) :: u16)) :: u8) = b2"
    and "(ucast (ucast ((drop_bit 8 temp AND 0xFF) OR (drop_bit 16 temp AND 0xFF00)) :: u16) :: u8) = b1"
    and "(ucast (drop_bit 8 (ucast ((drop_bit 8 temp AND 0xFF) OR (drop_bit 16 temp AND 0xFF00)) :: u16)) :: u8) = b3"
proof -
  have m: "(0xFF :: u32) = mask 8" "(0xFF00 :: u32) = push_bit 8 (mask 8)"
    by (simp_all add: mask_eq_exp_minus_1)
  show "(ucast (ucast ((temp AND 0xFF) OR (drop_bit 8 temp AND 0xFF00)) :: u16) :: u8) = b0"
    unfolding temp_def m by (rule bit_word_eqI) (auto simp add: bit_simps dest: bit_imp_le_length)
  show "(ucast (drop_bit 8 (ucast ((temp AND 0xFF) OR (drop_bit 8 temp AND 0xFF00)) :: u16)) :: u8) = b2"
    unfolding temp_def m by (rule bit_word_eqI) (auto simp add: bit_simps dest: bit_imp_le_length)
  show "(ucast (ucast ((drop_bit 8 temp AND 0xFF) OR (drop_bit 16 temp AND 0xFF00)) :: u16) :: u8) = b1"
    unfolding temp_def m by (rule bit_word_eqI) (auto simp add: bit_simps dest: bit_imp_le_length)
  show "(ucast (drop_bit 8 (ucast ((drop_bit 8 temp AND 0xFF) OR (drop_bit 16 temp AND 0xFF00)) :: u16)) :: u8) = b3"
    unfolding temp_def m by (rule bit_word_eqI) (auto simp add: bit_simps dest: bit_imp_le_length)
qed

lemma load32_append:
  "load32 (I1 @ b0 # b1 # b2 # b3 # I2) (length I1)
     = Some (ucast b0 OR push_bit 8 (ucast b1) OR push_bit 16 (ucast b2)
             OR push_bit 24 (ucast b3))"
  by (simp add: load32_def nth_append)

lemma store16_append:
  "store16 (O1 @ x0 # x1 # R) (length O1) v
     = Some (O1 @ ucast v # ucast (drop_bit 8 v) # R)"
  by (simp add: store16_def list_update_append)

lemma length_2_Suc:
  assumes "length xs = 2 * Suc j"
  obtains x0 x1 xs' where "xs = x0 # x1 # xs'" "length xs' = 2 * j"
proof -
  from assms obtain x0 t where t: "xs = x0 # t" "length t = Suc (2 * j)"
    by (cases xs) auto
  then obtain x1 xs' where "t = x1 # xs'" "length xs' = 2 * j"
    by (cases t) auto
  with t that show ?thesis by blast
qed

lemma uv_row_step:
  "uv_row (I1 @ c0 # d0 # c1 # d1 # I2) (Suc j) (length I1) (length O1)
       (length (O1 @ x0 # x1 # M)) (O1 @ x0 # x1 # M @ y0 # y1 # O3)
   = uv_row (I1 @ c0 # d0 # c1 # d1 # I2) j (length I1 + 4) (length O1 + 2)
       (length (O1 @ x0 # x1 # M) + 2) (O1 @ c0 # c1 # M @ d0 # d1 # O3)"
proof -
  have s2: "store16 (O1 @ c0 # c1 # M @ y0 # y1 # O3) (length (O1 @ x0 # x1 # M)) v
      = Some (O1 @ c0 # c1 # M @ ucast v # ucast (drop_bit 8 v) # O3)" for v
    using store16_append[of "O1 @ c0 # c1 # M" y0 y1 O3 v] by simp
  show ?thesis
    by (simp only: uv_row.simps load32_append store16_append word_of_bytes_U s2
          Option.bind.simps Let_def)
qed

lemma uv_row_deinterleave:
  assumes "length c = 2 * j" "length d = 2 * j" "length X = 2 * j" "length Y = 2 * j"
  shows "uv_row (I1 @ interleave c d @ I2) j (length I1) (length O1) (length (O1 @ X @ O2))
           (O1 @ X @ O2 @ Y @ O3)
         = Some (length I1 + 4 * j, length O1 + 2 * j, length (O1 @ X @ O2) + 2 * j,
                 O1 @ c @ O2 @ d @ O3)"
  using assms
proof (induction j arbitrary: c d X Y I1 O1 O2)
  case 0
  then show ?case by simp
next
  case (Suc j)
  from Suc.prems(1) obtain c0 c1 c' where c: "c = c0 # c1 # c'" "length c' = 2 * j"
    by (rule length_2_Suc)
  from Suc.prems(2) obtain d0 d1 d' where d: "d = d0 # d1 # d'" "length d' = 2 * j"
    by (rule length_2_Suc)
  from Suc.prems(3) obtain x0 x1 X' where X: "X = x0 # x1 # X'" "length X' = 2 * j"
    by (rule length_2_Suc)
  from Suc.prems(4) obtain y0 y1 Y' where Y: "Y = y0 # y1 # Y'" "length Y' = 2 * j"
    by (rule length_2_Suc)
  have "uv_row (I1 @ interleave c d @ I2) (Suc j) (length I1) (length O1)
           (length (O1 @ X @ O2)) (O1 @ X @ O2 @ Y @ O3)
      = uv_row (I1 @ c0 # d0 # c1 # d1 # (interleave c' d' @ I2)) (Suc j) (length I1) (length O1)
           (length (O1 @ x0 # x1 # (X' @ O2))) (O1 @ x0 # x1 # (X' @ O2) @ y0 # y1 # (Y' @ O3))"
    by (simp add: c d X Y)
  also have "\<dots> = uv_row (I1 @ c0 # d0 # c1 # d1 # (interleave c' d' @ I2)) j (length I1 + 4)
           (length O1 + 2) (length (O1 @ x0 # x1 # (X' @ O2)) + 2)
           (O1 @ c0 # c1 # (X' @ O2) @ d0 # d1 # (Y' @ O3))"
    by (rule uv_row_step)
  also have "\<dots> = uv_row ((I1 @ [c0, d0, c1, d1]) @ interleave c' d' @ I2) j
           (length (I1 @ [c0, d0, c1, d1])) (length (O1 @ [c0, c1]))
           (length ((O1 @ [c0, c1]) @ X' @ (O2 @ [d0, d1])))
           ((O1 @ [c0, c1]) @ X' @ (O2 @ [d0, d1]) @ Y' @ O3)"
    by (simp add: eval_nat_numeral)
  also have "\<dots> = Some (length (I1 @ [c0, d0, c1, d1]) + 4 * j, length (O1 @ [c0, c1]) + 2 * j,
                 length ((O1 @ [c0, c1]) @ X' @ (O2 @ [d0, d1])) + 2 * j,
                 (O1 @ [c0, c1]) @ c' @ (O2 @ [d0, d1]) @ d' @ O3)"
    by (rule Suc.IH[OF c(2) d(2) X(2) Y(2)])
  also have "\<dots> = Some (length I1 + 4 * Suc j, length O1 + 2 * Suc j,
                 length (O1 @ X @ O2) + 2 * Suc j, O1 @ c @ O2 @ d @ O3)"
    by (simp add: c d X Y)
  finally show ?case .
qed

lemma interleave_append:
  "length a = length b \<Longrightarrow> interleave (a @ a') (b @ b') = interleave a b @ interleave a' b'"
  by (induction a b rule: list_induct2) simp_all

lemma length_interleave:
  "length a = length b \<Longrightarrow> length (interleave a b) = 2 * length a"
  by (induction a b rule: list_induct2) simp_all

lemma uv_rows_deinterleave:
  assumes "length c = 2 * w4 * i" "length d = 2 * w4 * i"
          "length X = 2 * w4 * i" "length Y = 2 * w4 * i"
  shows "uv_rows (I1 @ interleave c d @ I2) w4 i (length I1) (length O1) (length (O1 @ X @ O2))
           (O1 @ X @ O2 @ Y @ O3)
         = Some (length I1 + 4 * w4 * i, length O1 + 2 * w4 * i,
                 length (O1 @ X @ O2) + 2 * w4 * i, O1 @ c @ O2 @ d @ O3)"
  using assms
proof (induction i arbitrary: c d X Y I1 O1 O2)
  case 0
  then show ?case by simp
next
  case (Suc i)
  let ?n = "2 * w4"
  define c1 c2 where "c1 = take ?n c" and "c2 = drop ?n c"
  define d1 d2 where "d1 = take ?n d" and "d2 = drop ?n d"
  define X1 X2 where "X1 = take ?n X" and "X2 = drop ?n X"
  define Y1 Y2 where "Y1 = take ?n Y" and "Y2 = drop ?n Y"
  have sp: "c = c1 @ c2" "d = d1 @ d2" "X = X1 @ X2" "Y = Y1 @ Y2"
    by (simp_all add: c1_def c2_def d1_def d2_def X1_def X2_def Y1_def Y2_def)
  have l1: "length c1 = ?n" "length d1 = ?n" "length X1 = ?n" "length Y1 = ?n"
    using Suc.prems by (simp_all add: c1_def d1_def X1_def Y1_def)
  have l2: "length c2 = 2 * w4 * i" "length d2 = 2 * w4 * i"
           "length X2 = 2 * w4 * i" "length Y2 = 2 * w4 * i"
    using Suc.prems by (simp_all add: c2_def d2_def X2_def Y2_def)
  have il: "interleave (c1 @ c2) (d1 @ d2) = interleave c1 d1 @ interleave c2 d2"
    using l1 by (intro interleave_append) simp
  have row: "uv_row (I1 @ interleave c1 d1 @ (interleave c2 d2 @ I2)) w4 (length I1) (length O1)
           (length (O1 @ X1 @ (X2 @ O2))) (O1 @ X1 @ (X2 @ O2) @ Y1 @ (Y2 @ O3))
         = Some (length I1 + 4 * w4, length O1 + 2 * w4, length (O1 @ X1 @ (X2 @ O2)) + 2 * w4,
                 O1 @ c1 @ (X2 @ O2) @ d1 @ (Y2 @ O3))"
    by (rule uv_row_deinterleave[OF l1])
  have rest: "uv_rows ((I1 @ interleave c1 d1) @ interleave c2 d2 @ I2) w4 i
           (length (I1 @ interleave c1 d1)) (length (O1 @ c1))
           (length ((O1 @ c1) @ X2 @ (O2 @ d1))) ((O1 @ c1) @ X2 @ (O2 @ d1) @ Y2 @ O3)
         = Some (length (I1 @ interleave c1 d1) + 4 * w4 * i, length (O1 @ c1) + 2 * w4 * i,
                 length ((O1 @ c1) @ X2 @ (O2 @ d1)) + 2 * w4 * i,
                 (O1 @ c1) @ c2 @ (O2 @ d1) @ d2 @ O3)"
    by (rule Suc.IH[OF l2])
  have li: "length (interleave c1 d1) = 4 * w4"
    using length_interleave[of c1 d1] l1 by simp
  have "uv_rows (I1 @ interleave c d @ I2) w4 (Suc i) (length I1) (length O1)
           (length (O1 @ X @ O2)) (O1 @ X @ O2 @ Y @ O3)
      = uv_rows (I1 @ interleave c1 d1 @ (interleave c2 d2 @ I2)) w4 (Suc i) (length I1)
           (length O1) (length (O1 @ X1 @ (X2 @ O2))) (O1 @ X1 @ (X2 @ O2) @ Y1 @ (Y2 @ O3))"
    by (simp only: sp il append_assoc)
  also have "\<dots> = uv_rows (I1 @ interleave c1 d1 @ (interleave c2 d2 @ I2)) w4 i
           (length I1 + 4 * w4) (length O1 + 2 * w4) (length (O1 @ X1 @ (X2 @ O2)) + 2 * w4)
           (O1 @ c1 @ (X2 @ O2) @ d1 @ (Y2 @ O3))"
    by (simp only: uv_rows.simps row Option.bind.simps prod.case)
  also have "\<dots> = uv_rows ((I1 @ interleave c1 d1) @ interleave c2 d2 @ I2) w4 i
           (length (I1 @ interleave c1 d1)) (length (O1 @ c1))
           (length ((O1 @ c1) @ X2 @ (O2 @ d1))) ((O1 @ c1) @ X2 @ (O2 @ d1) @ Y2 @ O3)"
  proof -
    have a1: "length I1 + 4 * w4 = length (I1 @ interleave c1 d1)" using li by simp
    have a2: "length O1 + 2 * w4 = length (O1 @ c1)" using l1 by simp
    have a3: "length (O1 @ X1 @ (X2 @ O2)) + 2 * w4 = length ((O1 @ c1) @ X2 @ (O2 @ d1))"
      using l1 by simp
    show ?thesis by (simp only: a1 a2 a3 append_assoc)
  qed
  also note rest
  also have "Some (length (I1 @ interleave c1 d1) + 4 * w4 * i, length (O1 @ c1) + 2 * w4 * i,
                 length ((O1 @ c1) @ X2 @ (O2 @ d1)) + 2 * w4 * i,
                 (O1 @ c1) @ c2 @ (O2 @ d1) @ d2 @ O3)
      = Some (length I1 + 4 * w4 * Suc i, length O1 + 2 * w4 * Suc i,
                 length (O1 @ X @ O2) + 2 * w4 * Suc i, O1 @ c @ O2 @ d @ O3)"
    using l1 l2 li by (simp add: sp)
  finally show ?case .
qed

lemma memcpy_prefix:
  assumes "n \<le> length dst" "n \<le> length src"
  shows "memcpy dst 0 src 0 n = Some (take n src @ drop n dst)"
  using assms by (simp add: memcpy_def)

lemma sint_mult_no_overflow:
  fixes a b :: s32
  assumes "0 \<le> sint a" "0 \<le> sint b" "sint a * sint b < 2 ^ 31"
  shows "sint (a * b) = sint a * sint b"
proof -
  have "0 \<le> sint a * sint b" using assms(1,2) by simp
  then have "signed_take_bit 31 (sint a * sint b) = sint a * sint b"
    using assms(3) by (intro signed_take_bit_int_eq_self) auto
  then show ?thesis by (simp add: sint_word_ariths)
qed

lemma drop_split3:
  "drop n xs = take q (drop n xs) @ take q (drop (n + q) xs) @ drop (n + q + q) xs"
proof -
  have e1: "drop q (drop n xs) = drop (n + q) xs" by (simp add: add.commute)
  have e2: "drop q (drop (n + q) xs) = drop (n + q + q) xs" by (simp add: add.commute)
  have "drop n xs = take q (drop n xs) @ drop q (drop n xs)"
    by (simp only: append_take_drop_id)
  also have "\<dots> = take q (drop n xs) @ drop (n + q) xs"
    by (simp only: e1)
  also have "\<dots> = take q (drop n xs) @ take q (drop (n + q) xs) @ drop q (drop (n + q) xs)"
    by (simp only: append_take_drop_id)
  also have "\<dots> = take q (drop n xs) @ take q (drop (n + q) xs) @ drop (n + q + q) xs"
    by (simp only: e2)
  finally show ?thesis .
qed

text \<open>
  Claim C4. For a width divisible by 4 and a positive even height whose product fits
  \<open>int32_t\<close>, packing a planar image (luma plane, Cb plane, Cr plane) with the reference
  packer and converting the result gives back the luma plane followed by the Cb plane and
  the Cr plane, byte for byte; the rest of the output buffer is left as it was.
\<close>

theorem semiplanar_roundtrip:
  assumes w: "0 \<le> sint width" "4 dvd sint width"
    and h: "0 < sint height" "even (sint height)"
    and fit: "sint width * sint height < 2 ^ 31"
    and lY: "length Y = nat (sint width * sint height)"
    and lCb: "length Cb = nat (sint width * sint height) div 4"
    and lCr: "length Cr = nat (sint width * sint height) div 4"
    and lout: "length Y + length Cb + length Cr \<le> length outYUV"
  shows "ConvertYUV420SemiPlanarToYUV420Planar (packSemiPlanar Y Cb Cr) outYUV width height
           = Some (Y @ Cb @ Cr @ drop (length Y + length Cb + length Cr) outYUV)"
proof -
  let ?N = "nat (sint width * sint height)"
  let ?w4 = "nat (sint (signed_drop_bit 2 width))"
  let ?h2 = "nat (sint (signed_drop_bit 1 height))"
  obtain a where a: "sint width = 4 * a" using w(2) by (auto elim: dvdE)
  obtain b where b: "sint height = 2 * b" using h(2) by (auto elim: evenE)
  have a0: "0 \<le> a" and b0: "0 < b" using w(1) h(1) a b by simp_all
  have w4: "?w4 = nat a"
    by (simp add: sint_signed_drop_bit_eq drop_bit_eq_div a)
  have h2: "?h2 = nat b"
    by (simp add: sint_signed_drop_bit_eq drop_bit_eq_div b)
  have sz: "sint (width * height) = sint width * sint height"
    using w(1) h(1) fit by (intro sint_mult_no_overflow) simp_all
  have N: "?N = 8 * nat a * nat b"
    using a0 b0 by (simp add: a b nat_mult_distrib)
  have N4: "nat (sint (signed_drop_bit 2 (width * height))) = ?N div 4"
    using a0 b0 by (simp add: sint_signed_drop_bit_eq drop_bit_eq_div sz a b nat_mult_distrib nat_div_distrib)
  have Nq: "?N div 4 = 2 * ?w4 * ?h2"
    unfolding N w4 h2 by simp
  have li: "length (interleave Cb Cr) = 2 * (?N div 4)"
    using length_interleave[of Cb Cr] lCb lCr by simp
  define X where "X = take (?N div 4) (drop ?N outYUV)"
  define Yv where "Yv = take (?N div 4) (drop (?N + ?N div 4) outYUV)"
  define O3 where "O3 = drop (?N + ?N div 4 + ?N div 4) outYUV"
  have dr: "drop ?N outYUV = X @ Yv @ O3"
    unfolding X_def Yv_def O3_def by (rule drop_split3)
  have lX': "length X = ?N div 4" "length Yv = ?N div 4"
  proof -
    define n q where "n = ?N" and "q = ?N div 4"
    have "n + q + q \<le> length outYUV"
      using lout lY lCb lCr by (simp add: n_def q_def)
    then have "min (length outYUV - n) q = q" "min (length outYUV - (n + q)) q = q"
      by simp_all
    then show "length X = ?N div 4" "length Yv = ?N div 4"
      by (simp_all add: X_def Yv_def n_def q_def)
  qed
  have lX: "length X = 2 * ?w4 * ?h2" "length Yv = 2 * ?w4 * ?h2"
    using lX' Nq by (simp_all only:)
  have lC: "length Cb = 2 * ?w4 * ?h2" "length Cr = 2 * ?w4 * ?h2"
    using lCb lCr Nq by (simp_all only:)
  have n: "nat (sint (width * height)) = length Y"
    using sz lY by simp
  have cp: "memcpy outYUV 0 (packSemiPlanar Y Cb Cr) 0 (length Y) = Some (Y @ X @ Yv @ O3)"
    using memcpy_prefix[of "length Y" outYUV "packSemiPlanar Y Cb Cr"] lout lY dr
    by (simp add: packSemiPlanar_def)
  have cr: "length Y + nat (sint (signed_drop_bit 2 (width * height))) = length (Y @ X)"
    using lY lX' N4 by simp
  have rows: "uv_rows (packSemiPlanar Y Cb Cr) ?w4 ?h2 (length Y) (length Y)
                (length (Y @ X)) (Y @ X @ Yv @ O3)
        = Some (length Y + 4 * ?w4 * ?h2, length Y + 2 * ?w4 * ?h2,
                length (Y @ X) + 2 * ?w4 * ?h2, Y @ Cb @ Cr @ O3)"
    using uv_rows_deinterleave[OF lC lX, where ?I1.0 = Y and ?I2.0 = "[]" and ?O1.0 = Y
             and ?O2.0 = "[]" and ?O3.0 = O3]
    by (simp only: packSemiPlanar_def append_Nil2 append_Nil)
  have "0 \<le> sint width * sint height"
    using w(1) h(1) by (intro mult_nonneg_nonneg) simp_all
  then have nonneg: "\<not> sint (width * height) < 0"
    using sz by simp
  have "ConvertYUV420SemiPlanarToYUV420Planar (packSemiPlanar Y Cb Cr) outYUV width height
      = Some (Y @ Cb @ Cr @ O3)"
    unfolding ConvertYUV420SemiPlanarToYUV420Planar_def Let_def
    by (simp only: nonneg if_False n cr cp rows Option.bind.simps prod.case)
  then show ?thesis
    using lY lCb lCr by (simp add: O3_def)
qed

theorem semiplanar_roundtrip_witness:
  "ConvertYUV420SemiPlanarToYUV420Planar
     (packSemiPlanar [1, 2, 3, 4, 5, 6, 7, 8] [10, 11] [20, 21]) (replicate 13 0) 4 2
   = Some [1, 2, 3, 4, 5, 6, 7, 8, 10, 11, 20, 21, 0]"
proof -
  have "ConvertYUV420SemiPlanarToYUV420Planar
          (packSemiPlanar [1, 2, 3, 4, 5, 6, 7, 8] [10, 11] [20, 21]) (replicate 13 0) 4 2
        = Some ([1, 2, 3, 4, 5, 6, 7, 8] @ [10, 11] @ [20, 21]
                @ drop (length [1, 2, 3, 4, 5, 6, 7, 8 :: u8] + length [10, 11 :: u8]
                        + length [20, 21 :: u8]) (replicate 13 0))"
    by (rule semiplanar_roundtrip) simp_all
  then show ?thesis by simp
qed

section \<open>Properties of the RGB conversion\<close>

lemma take_bit_8_24:
  fixes a c :: int
  shows "take_bit 8 (take_bit 24 a + c) = take_bit 8 (a + c)"
proof -
  have "take_bit 8 (take_bit 24 a + c) = take_bit 8 (take_bit 8 (take_bit 24 a) + take_bit 8 c)"
    by (simp only: take_bit_add)
  also have "take_bit 8 (take_bit 24 a) = take_bit 8 a"
    by (simp add: take_bit_take_bit)
  also have "take_bit 8 (take_bit 8 a + take_bit 8 c) = take_bit 8 (a + c)"
    by (simp only: take_bit_add)
  finally show ?thesis .
qed

lemma ucast_of_int_down: "(ucast (word_of_int k :: u32) :: u8) = word_of_int k"
proof -
  have "(ucast (word_of_int k :: u32) :: u8) = word_of_int (uint (word_of_int k :: u32))"
    by (rule ucast_eq)
  also have "\<dots> = word_of_int (take_bit 32 k)"
    by (simp only: uint_word_of_int_eq len_of_numeral_defs) simp
  also have "\<dots> = word_of_int k"
    by (simp only: word_of_int_eq_iff take_bit_take_bit) simp
  finally show ?thesis .
qed

lemma drop_bit_8_of_int:
  "drop_bit 8 (word_of_int S :: u32) = word_of_int (take_bit 24 (drop_bit 8 S))"
proof -
  have a: "drop_bit 8 (take_bit 32 S) = take_bit 24 (drop_bit 8 S)"
    by (simp add: drop_bit_take_bit)
  have "uint (drop_bit 8 (word_of_int S :: u32)) = drop_bit 8 (take_bit 32 S)"
    by (simp only: unsigned_drop_bit_eq uint_word_of_int_eq take_bit_take_bit) simp
  then have "uint (drop_bit 8 (word_of_int S :: u32)) = take_bit 24 (drop_bit 8 S)"
    by (simp only: a)
  then show ?thesis
    using word_of_int_uint[of "drop_bit 8 (word_of_int S :: u32)"] by (simp only:)
qed

lemma byte_of_shifted:
  fixes S c :: int
  shows "(ucast (drop_bit 8 (word_of_int S :: u32) + word_of_int c) :: u8)
           = word_of_int (S div 2 ^ 8 + c)"
proof -
  have "(ucast (drop_bit 8 (word_of_int S :: u32) + word_of_int c) :: u8)
      = ucast (word_of_int (take_bit 24 (drop_bit 8 S) + c) :: u32)"
    by (simp only: drop_bit_8_of_int wi_hom_add)
  also have "\<dots> = word_of_int (take_bit 24 (drop_bit 8 S) + c)"
    by (simp only: ucast_of_int_down)
  also have "\<dots> = word_of_int (drop_bit 8 S + c)"
    by (simp only: word_of_int_eq_iff) (simp add: take_bit_8_24)
  finally show ?thesis by (simp only: drop_bit_eq_div)
qed

lemma ucast_byte_of_int: "(ucast (b :: u8) :: u32) = word_of_int (uint b)"
  by (rule ucast_eq)

lemma luma_sum:
  "(word_of_int (uint r * 65 + uint g * 129 + uint b * 25 + 128) :: u32)
     = ucast (r::u8) * 65 + ucast (g::u8) * 129 + ucast (b::u8) * 25 + 128"
  by (simp add: word_of_int_homs)

lemma U_sum:
  "(word_of_int (- uint r * 38 - uint g * 74 + uint b * 112 + 128) :: u32)
     = - ucast (r::u8) * 38 - ucast (g::u8) * 74 + ucast (b::u8) * 112 + 128"
  by (simp add: word_of_int_homs)

lemma V_sum:
  "(word_of_int (uint r * 112 - uint g * 94 - uint b * 18 + 128) :: u32)
     = ucast (r::u8) * 112 - ucast (g::u8) * 94 - ucast (b::u8) * 18 + 128"
  by (simp add: word_of_int_homs)

lemma rgb_luma_int:
  "(ucast (rgb_luma (ucast (r::u8)) (ucast (g::u8)) (ucast (b::u8))) :: u8)
     = word_of_int (specY (uint r) (uint g) (uint b))"
proof -
  have "rgb_luma (ucast r) (ucast g) (ucast b)
      = drop_bit 8 (word_of_int (uint r * 65 + uint g * 129 + uint b * 25 + 128) :: u32)
        + word_of_int 16"
    by (simp only: rgb_luma_def luma_sum) simp
  then show ?thesis
    by (simp only: byte_of_shifted specY_def)
qed

lemma rgb_U_int:
  "(ucast (rgb_U (ucast (r::u8)) (ucast (g::u8)) (ucast (b::u8))) :: u8)
     = word_of_int (specU (uint r) (uint g) (uint b))"
proof -
  have "rgb_U (ucast r) (ucast g) (ucast b)
      = drop_bit 8 (word_of_int (- uint r * 38 - uint g * 74 + uint b * 112 + 128) :: u32)
        + word_of_int 128"
    by (simp only: rgb_U_def U_sum) simp
  then show ?thesis
    by (simp only: byte_of_shifted specU_def)
qed

lemma rgb_V_int:
  "(ucast (rgb_V (ucast (r::u8)) (ucast (g::u8)) (ucast (b::u8))) :: u8)
     = word_of_int (specV (uint r) (uint g) (uint b))"
proof -
  have "rgb_V (ucast r) (ucast g) (ucast b)
      = drop_bit 8 (word_of_int (uint r * 112 - uint g * 94 - uint b * 18 + 128) :: u32)
        + word_of_int 128"
    by (simp only: rgb_V_def V_sum) simp
  then show ?thesis
    by (simp only: byte_of_shifted specV_def)
qed

lemma spec_ranges:
  assumes "0 \<le> R" "R \<le> 255" "0 \<le> G" "G \<le> 255" "0 \<le> B" "B \<le> (255::int)"
  shows "16 \<le> specY R G B" "specY R G B \<le> 235"
        "16 \<le> specU R G B" "specU R G B \<le> 240"
        "16 \<le> specV R G B" "specV R G B \<le> 240"
  using assms unfolding specY_def specU_def specV_def by simp_all

lemma rgb_row_done:
  "\<not> x < W \<Longrightarrow> rgb_row src ro go bo W y x srcp dY dU dV dst = Some (srcp, dst)"
  by (simp add: rgb_row.simps)

lemma rgb_row_step_luma:
  assumes "x < W" "srcp + 4 \<le> length src" "ro < 4" "go < 4" "bo < 4"
    "dY + x < length dst" "\<not> (even x \<and> even y)"
  shows "rgb_row src ro go bo W y x srcp dY dU dV dst =
         rgb_row src ro go bo W y (x + 1) (srcp + 4) dY dU dV
           (dst[dY + x := lumaAt src ro go bo srcp])"
  using assms
  by (subst rgb_row.simps) (auto simp add: load8_def store8_def lumaAt_def)

lemma rgb_row_step_chroma:
  assumes "x < W" "srcp + 4 \<le> length src" "ro < 4" "go < 4" "bo < 4"
    "dY + x < length dst" "even x" "even y"
    "dU + x div 2 < length dst" "dV + x div 2 < length dst"
  shows "rgb_row src ro go bo W y x srcp dY dU dV dst =
         rgb_row src ro go bo W y (x + 1) (srcp + 4) dY dU dV
           (dst[dY + x := lumaAt src ro go bo srcp,
                dU + x div 2 := chromaUAt src ro go bo srcp,
                dV + x div 2 := chromaVAt src ro go bo srcp])"
  using assms
  by (subst rgb_row.simps)
     (simp add: load8_def store8_def lumaAt_def chromaUAt_def chromaVAt_def)

lemma rgb_row_spec:
  assumes "even W" "base + 4 * W \<le> length src" "ro < 4" "go < 4" "bo < 4"
    "dY + W \<le> length dst" "dY + W \<le> dU"
    "even y \<longrightarrow> dU + W div 2 \<le> dV \<and> dV + W div 2 \<le> length dst"
    "x0 \<le> W"
  shows "\<exists>dst'. rgb_row src ro go bo W y x0 (base + 4 * x0) dY dU dV dst
                  = Some (base + 4 * W, dst')
               \<and> row_post src ro go bo W y x0 base dY dU dV dst dst'"
  using assms(6-9)
proof (induction "W - x0" arbitrary: x0 dst)
  case 0
  then have "x0 = W" by simp
  moreover have "\<not> (Suc W div 2 \<le> c \<and> c < W div 2)" for c
    using assms(1) by (auto elim!: evenE)
  ultimately show ?case
    by (auto simp add: rgb_row_done row_post_def)
next
  case (Suc n)
  then have x0: "x0 < W" by simp
  have src: "base + 4 * x0 + 4 \<le> length src"
    using x0 assms(2) by simp
  have dy: "dY + x0 < length dst"
    using x0 Suc.prems by simp
  show ?case
  proof (cases "even x0 \<and> even y")
    case True
    then have ex: "even x0" and ey: "even y" by simp_all
    have x2: "x0 div 2 < W div 2"
      using x0 ex assms(1) by (auto elim!: evenE)
    have du: "dU + x0 div 2 < length dst" "dV + x0 div 2 < length dst"
      using x2 ey Suc.prems by auto
    let ?d2 = "dst[dY + x0 := lumaAt src ro go bo (base + 4 * x0),
                dU + x0 div 2 := chromaUAt src ro go bo (base + 4 * x0),
                dV + x0 div 2 := chromaVAt src ro go bo (base + 4 * x0)]"
    have step: "rgb_row src ro go bo W y x0 (base + 4 * x0) dY dU dV dst
        = rgb_row src ro go bo W y (x0 + 1) (base + 4 * (x0 + 1)) dY dU dV ?d2"
      using rgb_row_step_chroma[OF x0 src assms(3-5) dy ex ey du] by (simp add: algebra_simps)
    have "n = W - (x0 + 1)" using Suc.hyps(2) by simp
    from Suc.hyps(1)[OF this, of ?d2] Suc.prems x0
    obtain dst' where r: "rgb_row src ro go bo W y (x0 + 1) (base + 4 * (x0 + 1)) dY dU dV ?d2
                  = Some (base + 4 * W, dst')"
      and p: "row_post src ro go bo W y (x0 + 1) base dY dU dV ?d2 dst'"
      by auto
    have b8: "base + 4 * x0 = base + 8 * (x0 div 2)"
      using ex by (auto elim!: evenE)
    have f1: "length dst' = length dst" using p by (simp add: row_post_def)
    have f2: "dst' ! (dY + x) = lumaAt src ro go bo (base + 4 * x)"
      if a: "x0 \<le> x \<and> x < W" for x
      proof (cases "x = x0")
        case True
        have "dst' ! (dY + x0) = ?d2 ! (dY + x0)"
          using p x0 Suc.prems dy unfolding row_post_def by auto
        also have "\<dots> = lumaAt src ro go bo (base + 4 * x0)"
          using dy du x0 x2 ey Suc.prems by (auto simp add: nth_list_update)
        finally show ?thesis using True by simp
      next
        case False
        then show ?thesis using p a unfolding row_post_def by auto
      qed
    have f3: "dst' ! (dU + c) = chromaUAt src ro go bo (base + 8 * c) \<and>
            dst' ! (dV + c) = chromaVAt src ro go bo (base + 8 * c)"
      if a: "even y \<and> (x0 + 1) div 2 \<le> c \<and> c < W div 2" for c
      proof (cases "c = x0 div 2")
        case True
        have nu: "dst' ! (dU + x0 div 2) = ?d2 ! (dU + x0 div 2)"
          using p x0 x2 ex ey Suc.prems du unfolding row_post_def by auto
        have nv: "dst' ! (dV + x0 div 2) = ?d2 ! (dV + x0 div 2)"
          using p x0 x2 ex ey Suc.prems du unfolding row_post_def by auto
        have "?d2 ! (dU + x0 div 2) = chromaUAt src ro go bo (base + 4 * x0)"
             "?d2 ! (dV + x0 div 2) = chromaVAt src ro go bo (base + 4 * x0)"
          using dy du x0 x2 ey Suc.prems by (simp_all add: nth_list_update)
        then show ?thesis using nu nv True b8 by simp
      next
        case False
        then have "(x0 + 1 + 1) div 2 \<le> c" using a ex by (auto elim!: evenE)
        then show ?thesis using p a unfolding row_post_def by auto
      qed
    have f4: "dst' ! i = dst ! i"
      if a: "i < length dst \<and> \<not> (dY + x0 \<le> i \<and> i < dY + W)
          \<and> \<not> (even y \<and> dU + (x0 + 1) div 2 \<le> i \<and> i < dU + W div 2)
          \<and> \<not> (even y \<and> dV + (x0 + 1) div 2 \<le> i \<and> i < dV + W div 2)" for i
    proof -
      have e1: "(x0 + 1) div 2 = x0 div 2" using ex by (auto elim!: evenE)
      have e2: "(x0 + 1 + 1) div 2 = x0 div 2 + 1" using ex by (auto elim!: evenE)
      have "dst' ! i = ?d2 ! i"
        using p a e1 e2 unfolding row_post_def by auto
      also have "\<dots> = dst ! i"
        using a x0 x2 ey e1 by (auto simp add: nth_list_update)
      finally show "dst' ! i = dst ! i" .
    qed
    have "row_post src ro go bo W y x0 base dY dU dV dst dst'"
      unfolding row_post_def using f1 f2 f3 f4 by blast
    then show ?thesis using step r by auto
  next
    case False
    let ?d2 = "dst[dY + x0 := lumaAt src ro go bo (base + 4 * x0)]"
    have step: "rgb_row src ro go bo W y x0 (base + 4 * x0) dY dU dV dst
        = rgb_row src ro go bo W y (x0 + 1) (base + 4 * (x0 + 1)) dY dU dV ?d2"
      using rgb_row_step_luma[OF x0 src assms(3-5) dy False] by (simp add: algebra_simps)
    have "n = W - (x0 + 1)" using Suc.hyps(2) by simp
    from Suc.hyps(1)[OF this, of ?d2] Suc.prems x0
    obtain dst' where r: "rgb_row src ro go bo W y (x0 + 1) (base + 4 * (x0 + 1)) dY dU dV ?d2
                  = Some (base + 4 * W, dst')"
      and p: "row_post src ro go bo W y (x0 + 1) base dY dU dV ?d2 dst'"
      by auto
    have e: "even y \<Longrightarrow> (x0 + 1 + 1) div 2 = (x0 + 1) div 2"
      using False by (auto elim!: oddE)
    have f1: "length dst' = length dst" using p by (simp add: row_post_def)
    have f2: "dst' ! (dY + x) = lumaAt src ro go bo (base + 4 * x)"
      if a: "x0 \<le> x \<and> x < W" for x
      proof (cases "x = x0")
        case True
        have "dst' ! (dY + x0) = ?d2 ! (dY + x0)"
          using p x0 Suc.prems dy unfolding row_post_def by auto
        also have "\<dots> = lumaAt src ro go bo (base + 4 * x0)"
          using dy by simp
        finally show ?thesis using True by simp
      next
        case False
        then show ?thesis using p a unfolding row_post_def by auto
      qed
    have f3: "dst' ! (dU + c) = chromaUAt src ro go bo (base + 8 * c) \<and>
            dst' ! (dV + c) = chromaVAt src ro go bo (base + 8 * c)"
      if a: "even y \<and> (x0 + 1) div 2 \<le> c \<and> c < W div 2" for c
      using a p e unfolding row_post_def by auto
    have f4: "dst' ! i = dst ! i"
      if a: "i < length dst \<and> \<not> (dY + x0 \<le> i \<and> i < dY + W)
          \<and> \<not> (even y \<and> dU + (x0 + 1) div 2 \<le> i \<and> i < dU + W div 2)
          \<and> \<not> (even y \<and> dV + (x0 + 1) div 2 \<le> i \<and> i < dV + W div 2)" for i
    proof -
      have "dst' ! i = ?d2 ! i"
        using p a e unfolding row_post_def by auto
      also have "\<dots> = dst ! i"
        using a x0 by (auto simp add: nth_list_update)
      finally show "dst' ! i = dst ! i" .
    qed
    have "row_post src ro go bo W y x0 base dY dU dV dst dst'"
      unfolding row_post_def using f1 f2 f3 f4 by blast
    then show ?thesis using step r by auto
  qed
qed

lemma stride_lt:
  fixes x w s y y' :: nat
  assumes "x < w" "w \<le> s" "y < y'"
  shows "y * s + x < y' * s"
proof -
  have "y * s + x < Suc y * s" using assms(1,2) by simp
  also have "\<dots> \<le> y' * s" using assms(3) by (intro mult_le_mono1) simp
  finally show ?thesis .
qed

lemma stride_le:
  fixes w s y y' :: nat
  assumes "w \<le> s" "y < y'"
  shows "y * s + w \<le> y' * s"
proof -
  have "y * s + w \<le> Suc y * s" using assms(1) by simp
  also have "\<dots> \<le> y' * s" using assms(2) by (intro mult_le_mono1) simp
  finally show ?thesis .
qed

lemma rgb_rows_done:
  "\<not> y < H \<Longrightarrow> rgb_rows src ro go bo W H ss ds y srcp dY dU dV dst = Some dst"
  by (simp add: rgb_rows.simps)

lemma rgb_rows_step:
  assumes "y < H"
    "rgb_row src ro go bo W y 0 srcp dY dU dV dst = Some (srcp1, dst1)"
  shows "rgb_rows src ro go bo W H ss ds y srcp dY dU dV dst =
         rgb_rows src ro go bo W H ss ds (y + 1) (srcp1 + ss - 4 * W) (dY + ds)
           (if even y then dU + ds div 2 else dU) (if even y then dV + ds div 2 else dV) dst1"
  using assms by (subst rgb_rows.simps) simp

lemma rgb_rows_spec:
  assumes eW: "even W" and eH: "even H" and Wds: "W \<le> ds" and Hvs: "H \<le> vs"
    and off: "ro < 4" "go < 4" "bo < 4"
    and U: "Uoff = ds * vs" and V: "Voff = Uoff + (ds div 2) * (vs div 2)"
    and srcb: "(H - 1) * ss + 4 * W \<le> length src"
    and dstb: "Voff + (H div 2 - 1) * (ds div 2) + W div 2 \<le> L"
    and len: "length dst = L" and y0: "y0 \<le> H"
  shows "\<exists>dst'. rgb_rows src ro go bo W H ss ds y0 (y0 * ss) (y0 * ds)
                   (Uoff + (y0 + 1) div 2 * (ds div 2)) (Voff + (y0 + 1) div 2 * (ds div 2)) dst
                 = Some dst'
               \<and> rows_post src ro go bo W H ss ds Uoff Voff y0 dst dst'"
  using len y0
proof (induction "H - y0" arbitrary: y0 dst)
  case 0
  then have "y0 = H" by simp
  moreover have "\<not> ((H + 1) div 2 \<le> r \<and> r < H div 2)" for r
    using eH by (auto elim!: evenE)
  ultimately show ?case
    by (auto simp add: rgb_rows_done rows_post_def)
next
  case (Suc n)
  let ?cs = "ds div 2"
  have yH: "y0 < H" using Suc.hyps(2) by simp
  have Wcs: "W div 2 \<le> ?cs" using Wds by (simp add: div_le_mono)
  have Hvs2: "H div 2 \<le> vs div 2" using Hvs by (simp add: div_le_mono)
  have UV: "Uoff \<le> Voff" using V by simp
  have VL: "Voff \<le> L" using dstb by simp
  have yU: "y * ds + W \<le> Uoff" if "y < H" for y
    using stride_le[OF Wds, of y vs] that Hvs U by (simp add: mult.commute)
  have rV: "Uoff + r * ?cs + W div 2 \<le> Voff" if "r < H div 2" for r
    using stride_le[OF Wcs, of r "vs div 2"] that Hvs2 V by (simp add: mult.commute)
  have rL: "Voff + r * ?cs + W div 2 \<le> L" if "r < H div 2" for r
  proof -
    have "r \<le> H div 2 - 1" using that by simp
    then have "r * ?cs \<le> (H div 2 - 1) * ?cs" by (rule mult_le_mono1)
    then show ?thesis using dstb by linarith
  qed
  have srow: "y0 * ss + 4 * W \<le> length src"
  proof -
    have "y0 \<le> H - 1" using yH by simp
    then have "y0 * ss \<le> (H - 1) * ss" by (rule mult_le_mono1)
    then show ?thesis using srcb by linarith
  qed
  let ?dU = "Uoff + (y0 + 1) div 2 * ?cs"
  let ?dV = "Voff + (y0 + 1) div 2 * ?cs"
  have r0: "even y0 \<Longrightarrow> (y0 + 1) div 2 = y0 div 2 \<and> y0 div 2 < H div 2"
    using yH eH by (auto elim!: evenE)
  have p1: "y0 * ds + W \<le> length dst" using yU[OF yH] UV VL Suc.prems by simp
  have p2: "y0 * ds + W \<le> ?dU" using yU[OF yH] by simp
  have p3: "even y0 \<longrightarrow> ?dU + W div 2 \<le> ?dV \<and> ?dV + W div 2 \<le> length dst"
  proof
    assume e: "even y0"
    have "Uoff + y0 div 2 * ?cs + W div 2 \<le> Voff" using rV r0[OF e] by simp
    moreover have "Voff + y0 div 2 * ?cs + W div 2 \<le> L" using rL r0[OF e] by simp
    ultimately show "?dU + W div 2 \<le> ?dV \<and> ?dV + W div 2 \<le> length dst"
      using r0[OF e] Suc.prems by simp
  qed
  from rgb_row_spec[OF eW srow off p1 p2 p3, of 0]
  obtain dst1 where row: "rgb_row src ro go bo W y0 0 (y0 * ss) (y0 * ds) ?dU ?dV dst
                  = Some (y0 * ss + 4 * W, dst1)"
    and rp: "row_post src ro go bo W y0 0 (y0 * ss) (y0 * ds) ?dU ?dV dst dst1"
    by auto
  have l1: "length dst1 = L" using rp Suc.prems by (simp add: row_post_def)
  have nU: "(if even y0 then ?dU + ?cs else ?dU) = Uoff + (y0 + 1 + 1) div 2 * ?cs"
    by (auto elim!: evenE oddE)
  have nV: "(if even y0 then ?dV + ?cs else ?dV) = Voff + (y0 + 1 + 1) div 2 * ?cs"
    by (auto elim!: evenE oddE)
  have step: "rgb_rows src ro go bo W H ss ds y0 (y0 * ss) (y0 * ds) ?dU ?dV dst
      = rgb_rows src ro go bo W H ss ds (y0 + 1) ((y0 + 1) * ss) ((y0 + 1) * ds)
          (Uoff + (y0 + 1 + 1) div 2 * ?cs) (Voff + (y0 + 1 + 1) div 2 * ?cs) dst1"
  proof -
    have s1: "y0 * ss + 4 * W + ss - 4 * W = (y0 + 1) * ss" by simp
    have s2: "y0 * ds + ds = (y0 + 1) * ds" by simp
    show ?thesis
      by (simp only: rgb_rows_step[OF yH row] nU nV s1 s2)
  qed
  have "n = H - (y0 + 1)" using Suc.hyps(2) by simp
  from Suc.hyps(1)[OF this l1] yH
  obtain dst' where r: "rgb_rows src ro go bo W H ss ds (y0 + 1) ((y0 + 1) * ss) ((y0 + 1) * ds)
          (Uoff + (y0 + 1 + 1) div 2 * ?cs) (Voff + (y0 + 1 + 1) div 2 * ?cs) dst1 = Some dst'"
    and p: "rows_post src ro go bo W H ss ds Uoff Voff (y0 + 1) dst1 dst'"
    by auto
  have f1: "length dst' = length dst"
    using p l1 Suc.prems by (simp add: rows_post_def)
  have later: "dst' ! i = dst1 ! i"
    if "i < L" "\<forall>y x. y0 + 1 \<le> y \<and> y < H \<and> x < W \<longrightarrow> i \<noteq> y * ds + x"
       "\<forall>r c. (y0 + 1 + 1) div 2 \<le> r \<and> r < H div 2 \<and> c < W div 2 \<longrightarrow>
                 i \<noteq> Uoff + r * ?cs + c \<and> i \<noteq> Voff + r * ?cs + c" for i
    using p that l1 unfolding rows_post_def by blast
  have f2: "dst' ! (y * ds + x) = lumaAt src ro go bo (y * ss + 4 * x)"
    if a: "y0 \<le> y \<and> y < H \<and> x < W" for y x
  proof (cases "y = y0")
    case False
    then show ?thesis using p a unfolding rows_post_def by auto
  next
    case True
    have lt: "y0 * ds + x < Uoff" using yU[OF yH] a by simp
    have "dst' ! (y0 * ds + x) = dst1 ! (y0 * ds + x)"
    proof (rule later)
      show "y0 * ds + x < L" using lt UV VL by simp
      show "\<forall>y' x'. y0 + 1 \<le> y' \<and> y' < H \<and> x' < W \<longrightarrow> y0 * ds + x \<noteq> y' * ds + x'"
      proof (intro allI impI)
        fix y' x' assume "y0 + 1 \<le> y' \<and> y' < H \<and> x' < W"
        then have "y0 * ds + x < y' * ds" using stride_lt[of x W ds y0 y'] a Wds by simp
        then show "y0 * ds + x \<noteq> y' * ds + x'" by simp
      qed
      show "\<forall>r c. (y0 + 1 + 1) div 2 \<le> r \<and> r < H div 2 \<and> c < W div 2 \<longrightarrow>
                 y0 * ds + x \<noteq> Uoff + r * ?cs + c \<and> y0 * ds + x \<noteq> Voff + r * ?cs + c"
        using lt UV by auto
    qed
    also have "\<dots> = lumaAt src ro go bo (y0 * ss + 4 * x)"
      using rp a unfolding row_post_def by auto
    finally show ?thesis using True by simp
  qed
  have f3: "dst' ! (Uoff + r * ?cs + c) = chromaUAt src ro go bo (2 * r * ss + 8 * c) \<and>
            dst' ! (Voff + r * ?cs + c) = chromaVAt src ro go bo (2 * r * ss + 8 * c)"
    if a: "(y0 + 1) div 2 \<le> r \<and> r < H div 2 \<and> c < W div 2" for r c
  proof (cases "even y0 \<and> r = y0 div 2")
    case False
    then have "(y0 + 1 + 1) div 2 \<le> r" using a by (auto elim!: evenE oddE)
    then show ?thesis using p a unfolding rows_post_def by auto
  next
    case True
    then have e: "even y0" and rr: "r = y0 div 2" by simp_all
    have y2: "2 * r = y0" using e rr by (auto elim!: evenE)
    have ltU: "Uoff + r * ?cs + c < Voff" using rV[of r] a by simp
    have ltV: "Voff + r * ?cs + c < L" using rL[of r] a by simp
    have sep: "r * ?cs + c \<noteq> r' * ?cs + c'"
      if "(y0 + 1 + 1) div 2 \<le> r'" for r' c'
    proof -
      have "r < r'" using that e rr by (auto elim!: evenE)
      then have "r * ?cs + c < r' * ?cs" using stride_lt[of c "W div 2" ?cs r r'] a Wcs by simp
      then show ?thesis by simp
    qed
    have notY: "Uoff + r * ?cs + c \<noteq> y' * ds + x'" "Voff + r * ?cs + c \<noteq> y' * ds + x'"
      if "y' < H \<and> x' < W" for y' x'
      using yU[of y'] that UV by auto
    have "dst' ! (Uoff + r * ?cs + c) = dst1 ! (Uoff + r * ?cs + c)"
    proof (rule later)
      show "Uoff + r * ?cs + c < L" using ltU VL by simp
      show "\<forall>y x. y0 + 1 \<le> y \<and> y < H \<and> x < W \<longrightarrow> Uoff + r * ?cs + c \<noteq> y * ds + x"
        using notY by blast
      show "\<forall>r' c'. (y0 + 1 + 1) div 2 \<le> r' \<and> r' < H div 2 \<and> c' < W div 2 \<longrightarrow>
              Uoff + r * ?cs + c \<noteq> Uoff + r' * ?cs + c' \<and>
              Uoff + r * ?cs + c \<noteq> Voff + r' * ?cs + c'"
        using sep ltU by auto
    qed
    moreover have "dst' ! (Voff + r * ?cs + c) = dst1 ! (Voff + r * ?cs + c)"
    proof (rule later)
      show "Voff + r * ?cs + c < L" using ltV by simp
      show "\<forall>y x. y0 + 1 \<le> y \<and> y < H \<and> x < W \<longrightarrow> Voff + r * ?cs + c \<noteq> y * ds + x"
        using notY by blast
      show "\<forall>r' c'. (y0 + 1 + 1) div 2 \<le> r' \<and> r' < H div 2 \<and> c' < W div 2 \<longrightarrow>
              Voff + r * ?cs + c \<noteq> Uoff + r' * ?cs + c' \<and>
              Voff + r * ?cs + c \<noteq> Voff + r' * ?cs + c'"
      proof (intro allI impI conjI)
        fix r' c' assume b: "(y0 + 1 + 1) div 2 \<le> r' \<and> r' < H div 2 \<and> c' < W div 2"
        have "Uoff + r' * ?cs + c' < Voff" using rV[of r'] b by simp
        then show "Voff + r * ?cs + c \<noteq> Uoff + r' * ?cs + c'" by simp
        show "Voff + r * ?cs + c \<noteq> Voff + r' * ?cs + c'" using sep[of r' c'] b by simp
      qed
    qed
    moreover have "dst1 ! (?dU + c) = chromaUAt src ro go bo (y0 * ss + 8 * c) \<and>
                   dst1 ! (?dV + c) = chromaVAt src ro go bo (y0 * ss + 8 * c)"
      using rp a e unfolding row_post_def by auto
    ultimately show ?thesis using r0[OF e] rr y2 by simp
  qed
  have f4: "dst' ! i = dst ! i"
    if a: "i < length dst
          \<and> (\<forall>y x. y0 \<le> y \<and> y < H \<and> x < W \<longrightarrow> i \<noteq> y * ds + x)
          \<and> (\<forall>r c. (y0 + 1) div 2 \<le> r \<and> r < H div 2 \<and> c < W div 2 \<longrightarrow>
                 i \<noteq> Uoff + r * ?cs + c \<and> i \<noteq> Voff + r * ?cs + c)" for i
  proof -
    have mono: "(y0 + 1) div 2 \<le> (y0 + 1 + 1) div 2" by simp
    have "dst' ! i = dst1 ! i"
    proof (rule later)
      show "i < L" using a Suc.prems by simp
      show "\<forall>y x. y0 + 1 \<le> y \<and> y < H \<and> x < W \<longrightarrow> i \<noteq> y * ds + x"
        using a by auto
      show "\<forall>r c. (y0 + 1 + 1) div 2 \<le> r \<and> r < H div 2 \<and> c < W div 2 \<longrightarrow>
                 i \<noteq> Uoff + r * ?cs + c \<and> i \<noteq> Voff + r * ?cs + c"
      proof (intro allI impI)
        fix r c assume "(y0 + 1 + 1) div 2 \<le> r \<and> r < H div 2 \<and> c < W div 2"
        then have "(y0 + 1) div 2 \<le> r \<and> r < H div 2 \<and> c < W div 2"
          using mono by linarith
        then show "i \<noteq> Uoff + r * ?cs + c \<and> i \<noteq> Voff + r * ?cs + c"
          using a by blast
      qed
    qed
    also have "dst1 ! i = dst ! i"
    proof -
      have n1: "\<not> (y0 * ds + 0 \<le> i \<and> i < y0 * ds + W)"
      proof
        assume h: "y0 * ds + 0 \<le> i \<and> i < y0 * ds + W"
        then have "i = y0 * ds + (i - y0 * ds)" "i - y0 * ds < W" by linarith+
        then show False using a yH by (metis le_refl)
      qed
      have n2: "\<not> (even y0 \<and> ?dU + (0 + 1) div 2 \<le> i \<and> i < ?dU + W div 2)"
      proof
        assume h: "even y0 \<and> ?dU + (0 + 1) div 2 \<le> i \<and> i < ?dU + W div 2"
        then have "i = Uoff + (y0 + 1) div 2 * ?cs + (i - ?dU)" "i - ?dU < W div 2" by linarith+
        moreover have "(y0 + 1) div 2 < H div 2" using h r0 by simp
        ultimately show False using a by (metis le_refl)
      qed
      have n3: "\<not> (even y0 \<and> ?dV + (0 + 1) div 2 \<le> i \<and> i < ?dV + W div 2)"
      proof
        assume h: "even y0 \<and> ?dV + (0 + 1) div 2 \<le> i \<and> i < ?dV + W div 2"
        then have "i = Voff + (y0 + 1) div 2 * ?cs + (i - ?dV)" "i - ?dV < W div 2" by linarith+
        moreover have "(y0 + 1) div 2 < H div 2" using h r0 by simp
        ultimately show False using a by (metis le_refl)
      qed
      show ?thesis
        using rp a n1 n2 n3 unfolding row_post_def by blast
    qed
    finally show ?thesis .
  qed
  have "rows_post src ro go bo W H ss ds Uoff Voff y0 dst dst'"
    unfolding rows_post_def using f1 f2 f3 f4 by blast
  then show ?case using step r by auto
qed

lemma uint_spec_byte:
  assumes "0 \<le> k" "k < 256"
  shows "uint (word_of_int k :: u8) = k"
  using assms by (simp add: uint_word_of_int take_bit_int_eq_self)

lemma uint_byte_bounds: "0 \<le> uint (b :: u8)" "uint (b :: u8) \<le> 255"
  using uint_lt2p[of b] by simp_all

lemma lumaAt_spec:
  "uint (lumaAt src ro go bo p)
     = specY (uint (src ! (p + ro))) (uint (src ! (p + go))) (uint (src ! (p + bo)))"
  unfolding lumaAt_def rgb_luma_int
  using spec_ranges(1,2)[OF uint_byte_bounds uint_byte_bounds uint_byte_bounds,
          of "src ! (p + ro)" "src ! (p + go)" "src ! (p + bo)"]
  by (intro uint_spec_byte) simp_all

lemma chromaUAt_spec:
  "uint (chromaUAt src ro go bo p)
     = specU (uint (src ! (p + ro))) (uint (src ! (p + go))) (uint (src ! (p + bo)))"
  unfolding chromaUAt_def rgb_U_int
  using spec_ranges(3,4)[OF uint_byte_bounds uint_byte_bounds uint_byte_bounds,
          of "src ! (p + ro)" "src ! (p + go)" "src ! (p + bo)"]
  by (intro uint_spec_byte) simp_all

lemma chromaVAt_spec:
  "uint (chromaVAt src ro go bo p)
     = specV (uint (src ! (p + ro))) (uint (src ! (p + go))) (uint (src ! (p + bo)))"
  unfolding chromaVAt_def rgb_V_int
  using spec_ranges(5,6)[OF uint_byte_bounds uint_byte_bounds uint_byte_bounds,
          of "src ! (p + ro)" "src ! (p + go)" "src ! (p + bo)"]
  by (intro uint_spec_byte) simp_all

text \<open>
  Claim C5. For an even width and an even height, a destination that holds the three
  planes and a source that holds the rows, \<open>ConvertRGB32ToPlanar\<close> returns a destination
  in which the luma byte of every pixel \<open>(x, y)\<close> is
  \<open>((R*65 + G*129 + B*25 + 128) >> 8) + 16\<close>, and the bytes of the two half-resolution
  chroma planes at \<open>(c, r)\<close> are \<open>((-R*38 - G*74 + B*112 + 128) >> 8) + 128\<close> and
  \<open>((R*112 - G*94 - B*18 + 128) >> 8) + 128\<close> of the pixel \<open>(2c, 2r)\<close>, the pixel with
  both coordinates even. \<open>R\<close>, \<open>G\<close> and \<open>B\<close> are the bytes of the source pixel, red and
  blue swapped for BGR order; the formulas are over the integers and the stored byte is
  their value, with no clamping. Every other byte of the destination is unchanged.
\<close>

theorem ConvertRGB32ToPlanar_formulas:
  assumes eW: "even width" and eH: "even height"
    and Wds: "width \<le> dstStride" and Hvs: "height \<le> dstVStride"
    and srcb: "(height - 1) * srcStride + 4 * width \<le> length src"
    and dstb: "dstStride * dstVStride + (dstStride div 2) * (dstVStride div 2)
                 + (height div 2 - 1) * (dstStride div 2) + width div 2 \<le> length dst"
  shows "\<exists>dst'.
      ConvertRGB32ToPlanar SURFACE_IS_BGR32 dst dstStride dstVStride src width height
        srcStride bgr = Some dst'
    \<and> length dst' = length dst
    \<and> (\<forall>y x. y < height \<and> x < width \<longrightarrow>
          uint (dst' ! (y * dstStride + x))
            = specY (pixelR src srcStride (bgrOrder SURFACE_IS_BGR32 bgr) x y) (pixelG src srcStride x y)
                    (pixelB src srcStride (bgrOrder SURFACE_IS_BGR32 bgr) x y))
    \<and> (\<forall>r c. r < height div 2 \<and> c < width div 2 \<longrightarrow>
          uint (dst' ! (planeU dstStride dstVStride + r * (dstStride div 2) + c))
            = specU (pixelR src srcStride (bgrOrder SURFACE_IS_BGR32 bgr) (2 * c) (2 * r))
                    (pixelG src srcStride (2 * c) (2 * r))
                    (pixelB src srcStride (bgrOrder SURFACE_IS_BGR32 bgr) (2 * c) (2 * r))
        \<and> uint (dst' ! (planeV dstStride dstVStride + r * (dstStride div 2) + c))
            = specV (pixelR src srcStride (bgrOrder SURFACE_IS_BGR32 bgr) (2 * c) (2 * r))
                    (pixelG src srcStride (2 * c) (2 * r))
                    (pixelB src srcStride (bgrOrder SURFACE_IS_BGR32 bgr) (2 * c) (2 * r)))
    \<and> (\<forall>i. i < length dst
          \<and> (\<forall>y x. y < height \<and> x < width \<longrightarrow> i \<noteq> y * dstStride + x)
          \<and> (\<forall>r c. r < height div 2 \<and> c < width div 2 \<longrightarrow>
                 i \<noteq> planeU dstStride dstVStride + r * (dstStride div 2) + c
               \<and> i \<noteq> planeV dstStride dstVStride + r * (dstStride div 2) + c)
          \<longrightarrow> dst' ! i = dst ! i)"
proof -
  let ?Uoff = "planeU dstStride dstVStride"
  let ?Voff = "planeV dstStride dstVStride"
  let ?flag = "bgrOrder SURFACE_IS_BGR32 bgr"
  let ?ro = "if ?flag then 2 else 0 :: nat"
  let ?bo = "if ?flag then 0 else 2 :: nat"
  have o: "?ro < 4" "(1::nat) < 4" "?bo < 4" by simp_all
  have dstb': "?Voff + (height div 2 - 1) * (dstStride div 2) + width div 2 \<le> length dst"
    using dstb by (simp add: planeV_def)
  have U: "?Uoff = dstStride * dstVStride"
    by (simp add: planeU_def)
  have V: "?Voff = ?Uoff + (dstStride div 2) * (dstVStride div 2)"
    by (simp add: planeU_def planeV_def)
  from rgb_rows_spec[OF eW eH Wds Hvs o U V srcb dstb' refl, of 0]
  obtain dst' where r: "rgb_rows src ?ro 1 ?bo width height srcStride dstStride 0 0 0
       ?Uoff ?Voff dst = Some dst'"
    and p: "rows_post src ?ro 1 ?bo width height srcStride dstStride ?Uoff ?Voff 0 dst dst'"
    by auto
  have c: "ConvertRGB32ToPlanar SURFACE_IS_BGR32 dst dstStride dstVStride src width height
        srcStride bgr = Some dst'"
    using r eW eH by (simp add: ConvertRGB32ToPlanar_def Let_def bgrOrder_def planeU_def planeV_def)
  have f1: "length dst' = length dst" using p by (simp add: rows_post_def)
  have f2: "uint (dst' ! (y * dstStride + x))
            = specY (pixelR src srcStride ?flag x y) (pixelG src srcStride x y)
                    (pixelB src srcStride ?flag x y)"
    if "y < height \<and> x < width" for y x
  proof -
    have "dst' ! (y * dstStride + x) = lumaAt src ?ro 1 ?bo (y * srcStride + 4 * x)"
      using p that unfolding rows_post_def by simp
    then show ?thesis
      by (simp only: lumaAt_spec pixelR_def pixelG_def pixelB_def)
  qed
  have f3: "uint (dst' ! (?Uoff + r * (dstStride div 2) + c))
            = specU (pixelR src srcStride ?flag (2 * c) (2 * r))
                    (pixelG src srcStride (2 * c) (2 * r))
                    (pixelB src srcStride ?flag (2 * c) (2 * r))
        \<and> uint (dst' ! (?Voff + r * (dstStride div 2) + c))
            = specV (pixelR src srcStride ?flag (2 * c) (2 * r))
                    (pixelG src srcStride (2 * c) (2 * r))
                    (pixelB src srcStride ?flag (2 * c) (2 * r))"
    if "r < height div 2 \<and> c < width div 2" for r c
  proof -
    have "dst' ! (?Uoff + r * (dstStride div 2) + c)
            = chromaUAt src ?ro 1 ?bo (2 * r * srcStride + 8 * c)"
         "dst' ! (?Voff + r * (dstStride div 2) + c)
            = chromaVAt src ?ro 1 ?bo (2 * r * srcStride + 8 * c)"
      using p that unfolding rows_post_def by simp_all
    moreover have "2 * r * srcStride + 4 * (2 * c) = 2 * r * srcStride + 8 * c" by simp
    ultimately show ?thesis
      by (simp only: chromaUAt_spec chromaVAt_spec pixelR_def pixelG_def pixelB_def)
  qed
  have f4: "dst' ! i = dst ! i"
    if "i < length dst
          \<and> (\<forall>y x. y < height \<and> x < width \<longrightarrow> i \<noteq> y * dstStride + x)
          \<and> (\<forall>r c. r < height div 2 \<and> c < width div 2 \<longrightarrow>
                 i \<noteq> ?Uoff + r * (dstStride div 2) + c
               \<and> i \<noteq> ?Voff + r * (dstStride div 2) + c)" for i
    using p that unfolding rows_post_def by simp
  show ?thesis
    using c f1 f2 f3 f4 by blast
qed

theorem ConvertRGB32ToPlanar_formulas_witness:
  "\<exists>dst'.
      ConvertRGB32ToPlanar False (replicate 6 0) 2 2
        [255, 0, 0, 255, 0, 255, 0, 255, 0, 0, 255, 255, 255, 255, 255, 255] 2 2 8 False
        = Some dst'
    \<and> uint (dst' ! 0) = 81 \<and> uint (dst' ! 1) = 144 \<and> uint (dst' ! 2) = 41
    \<and> uint (dst' ! 3) = 234 \<and> uint (dst' ! 4) = 90 \<and> uint (dst' ! 5) = 240"
proof -
  let ?src = "[255, 0, 0, 255, 0, 255, 0, 255, 0, 0, 255, 255, 255, 255, 255, 255] :: u8 list"
  let ?dst = "replicate 6 0 :: u8 list"
  have h: "even (2::nat)" "(2::nat) \<le> 2"
    "(2 - 1) * 8 + 4 * 2 \<le> length ?src"
    "2 * 2 + (2 div 2) * (2 div 2) + (2 div 2 - 1) * (2 div 2) + 2 div 2 \<le> length ?dst"
    by simp_all
  from ConvertRGB32ToPlanar_formulas[OF h(1) h(1) h(2) h(2) h(3) h(4), of False False]
  obtain dst' where c: "ConvertRGB32ToPlanar False ?dst 2 2 ?src 2 2 8 False = Some dst'"
    and l: "\<forall>y x. y < 2 \<and> x < 2 \<longrightarrow>
          uint (dst' ! (y * 2 + x))
            = specY (pixelR ?src 8 (bgrOrder False False) x y) (pixelG ?src 8 x y)
                    (pixelB ?src 8 (bgrOrder False False) x y)"
    and u: "\<forall>r c. r < 2 div 2 \<and> c < 2 div 2 \<longrightarrow>
          uint (dst' ! (planeU 2 2 + r * (2 div 2) + c))
            = specU (pixelR ?src 8 (bgrOrder False False) (2 * c) (2 * r))
                    (pixelG ?src 8 (2 * c) (2 * r))
                    (pixelB ?src 8 (bgrOrder False False) (2 * c) (2 * r))
        \<and> uint (dst' ! (planeV 2 2 + r * (2 div 2) + c))
            = specV (pixelR ?src 8 (bgrOrder False False) (2 * c) (2 * r))
                    (pixelG ?src 8 (2 * c) (2 * r))
                    (pixelB ?src 8 (bgrOrder False False) (2 * c) (2 * r))"
    by blast
  have "uint (dst' ! 0) = 81" "uint (dst' ! 1) = 144" "uint (dst' ! 2) = 41"
       "uint (dst' ! 3) = 234"
    using l[rule_format, of 0 0] l[rule_format, of 0 1] l[rule_format, of 1 0]
          l[rule_format, of 1 1]
    by (simp_all add: specY_def pixelR_def pixelG_def pixelB_def bgrOrder_def)
  moreover have "uint (dst' ! 4) = 90" "uint (dst' ! 5) = 240"
    using u[rule_format, of 0 0]
    by (simp_all add: specU_def specV_def pixelR_def pixelG_def pixelB_def bgrOrder_def
          planeU_def planeV_def)
  ultimately show ?thesis using c by blast
qed

section \<open>Properties of graphic buffer extraction\<close>

text \<open>
  With the fence signalled, the example extraction converts the image into the
  destination.
\<close>

lemma extractGraphicBuffer_example:
  "extractGraphicBuffer (examplePlatform True) False sz64 exampleComponent
     [0, 0, 0, 0, 0, 0] 6 exampleMetadata 24 2 2 = Some (True, [81, 144, 41, 234, 90, 240])"
  by (simp add: extractGraphicBuffer_def extractLocked_def exampleMetadata_def
        examplePlatform_def exampleImage_def sz64_def exampleComponent_eq neededSize_def
        ConvertRGB32ToPlanar_def rgb_rows.simps rgb_row.simps load8_def store8_def
        rgb_luma_def rgb_U_def rgb_V_def Let_def)

text \<open>
  Claim C6. When the source metadata carries a fence (\<open>nFenceFd >= 0\<close>) and the wait for
  it does not return \<open>OK\<close> within the timeout, \<open>extractGraphicBuffer\<close> returns \<open>NULL\<close> and
  the destination buffer is the one it was given: nothing is written to it.
\<close>

theorem fence_timeout_leaves_destination:
  assumes "0 \<le> nFenceFd" "\<not> fence_wait env nFenceFd"
  shows "extractGraphicBuffer env SURFACE_IS_BGR32 sz s dst dstSize
           (VideoNativeMetadata buffer nFenceFd) srcSize width height = Some (False, dst)"
  using assms by (simp add: extractGraphicBuffer_def Let_def)

theorem fence_timeout_leaves_destination_witness:
  "extractGraphicBuffer (examplePlatform False) False sz64 exampleComponent
     [0, 0, 0, 0, 0, 0] 6 exampleMetadata 24 2 2 = Some (False, [0, 0, 0, 0, 0, 0])"
proof -
  have f: "(0::int) \<le> 5" "\<not> fence_wait (examplePlatform False) 5"
    by (simp_all add: examplePlatform_def)
  show ?thesis
    unfolding exampleMetadata_def
    by (rule fence_timeout_leaves_destination[OF f])
qed

end
